theory Spec2Isabelle
  imports Complex_Main "HOL-Library.Sublist"
begin

section \<open>Shielding pipeline: \<^verbatim>\<open>calculate_thickness.py\<close>\<close>

text \<open>
  Conventions of the embedding.
  \<^item> A Python \<^verbatim>\<open>float\<close> is a \<^typ>\<open>real\<close>: arithmetic is exact, and the IEEE special
    values (infinities, NaN) and rounding are outside the model.
  \<^item> A Python \<^verbatim>\<open>str\<close> is a \<^typ>\<open>string\<close>; a \<^typ>\<open>char\<close> stands for a code point
    below 256.
  \<^item> A failure is a value of \<open>failure\<close>: one of the Python exceptions the code can
    meet, or \<open>NonFinite\<close> for a numeric result that is no finite number. Code that
    can fail returns \<open>failure + 'a\<close>, with \<open>Inl\<close> the failure.
  \<^item> The builtin \<^verbatim>\<open>float(s)\<close> is a parameter \<open>float_of\<close> of type
    \<^typ>\<open>string \<Rightarrow> real option\<close>; \<open>None\<close> stands for its \<^verbatim>\<open>ValueError\<close>.
\<close>

datatype failure = ValueError | IndexError | FileNotFoundError | NonFinite

subsection \<open>Tokenising a line (lines 21 to 24)\<close>

text \<open>
  \<^verbatim>\<open>str.isspace\<close> and the regular expression class \<^verbatim>\<open>\s\<close> agree on the code points
  below 256: TAB, LF, VT, FF, CR, the separators 0x1C to 0x1F, the space, NEL (0x85)
  and the no-break space (0xA0).
\<close>

definition isspace :: "char \<Rightarrow> bool" where
  "isspace c = (let n = (of_char c :: nat)
                in (9 \<le> n \<and> n \<le> 13) \<or> (28 \<le> n \<and> n \<le> 32) \<or> n = 133 \<or> n = 160)"

text \<open>The character class \<^verbatim>\<open>[,\s]\<close>.\<close>

definition is_sep :: "char \<Rightarrow> bool" where
  "is_sep c = (c = CHR '','' \<or> isspace c)"

text \<open>\<^verbatim>\<open>line.strip()\<close>: whitespace removed at both ends.\<close>

definition strip :: "string \<Rightarrow> string" where
  "strip s = rev (dropWhile isspace (rev (dropWhile isspace s)))"

text \<open>
  \<^verbatim>\<open>re.split(r'[,\s]+', s)\<close>: the text before the leftmost separator, then the split of
  what follows the longest run of separators starting there; a string without a
  separator is returned whole (so the empty string gives one empty piece).
\<close>

function re_split :: "string \<Rightarrow> string list" where
  "re_split s =
     (case dropWhile (\<lambda>c. \<not> is_sep c) s of
        [] \<Rightarrow> [s]
      | _ # _ \<Rightarrow> takeWhile (\<lambda>c. \<not> is_sep c) s
                 # re_split (dropWhile is_sep (dropWhile (\<lambda>c. \<not> is_sep c) s)))"
  by pat_completeness auto
termination
proof (relation "measure length")
  show "wf (measure length)" by simp
next
  fix s :: string and x xs
  assume "dropWhile (\<lambda>c. \<not> is_sep c) s = x # xs"
  have "length (dropWhile is_sep (dropWhile (\<lambda>c. \<not> is_sep c) s))
          \<le> length (dropWhile (\<lambda>c. \<not> is_sep c) s)"
    by (rule length_dropWhile_le)
  moreover have "length (dropWhile (\<lambda>c. \<not> is_sep c) s) \<le> length s"
    by (rule length_dropWhile_le)
  moreover have "dropWhile is_sep (x # xs) = dropWhile is_sep xs"
    using \<open>dropWhile (\<lambda>c. \<not> is_sep c) s = x # xs\<close> hd_dropWhile [of "\<lambda>c. \<not> is_sep c" s]
    by auto
  moreover have "length (dropWhile is_sep xs) \<le> length xs"
    by (rule length_dropWhile_le)
  ultimately show "(dropWhile is_sep (dropWhile (\<lambda>c. \<not> is_sep c) s), s) \<in> measure length"
    using \<open>dropWhile (\<lambda>c. \<not> is_sep c) s = x # xs\<close> by simp
qed

declare re_split.simps [simp del]

text \<open>Lines 21 and 24: the stripped line is split and the empty pieces are dropped.\<close>

definition line_parts :: "string \<Rightarrow> string list" where
  "line_parts line = filter (\<lambda>p. p \<noteq> []) (re_split (strip line))"

subsection \<open>Scanning the lines (lines 19 to 37)\<close>

text \<open>\<^verbatim>\<open>float(s)\<close> on a string: the value, or \<^verbatim>\<open>ValueError\<close>.\<close>

definition float_py :: "(string \<Rightarrow> real option) \<Rightarrow> string \<Rightarrow> failure + real" where
  "float_py float_of s = (case float_of s of None \<Rightarrow> Inl ValueError | Some v \<Rightarrow> Inr v)"

text \<open>The body of the \<^verbatim>\<open>try\<close> of lines 28 to 34, up to the row to append.\<close>

definition convert_first_two ::
  "(string \<Rightarrow> real option) \<Rightarrow> string list \<Rightarrow> failure + (real \<times> real)" where
  "convert_first_two float_of parts =
     (case float_py float_of (parts ! 0) of
        Inl e \<Rightarrow> Inl e
      | Inr energy \<Rightarrow>
          (case float_py float_of (parts ! 1) of
             Inl e \<Rightarrow> Inl e
           | Inr flux_electron \<Rightarrow> Inr (energy, flux_electron)))"

text \<open>
  One iteration of the loop: \<open>valid_rows\<close> before, \<open>valid_rows\<close> after. The handler of
  line 35 catches \<^verbatim>\<open>ValueError\<close> only; any other exception would leave the loop.
\<close>

definition scan_line ::
  "(string \<Rightarrow> real option) \<Rightarrow> (real \<times> real) list \<Rightarrow> string \<Rightarrow> failure + (real \<times> real) list" where
  "scan_line float_of valid_rows line =
     (let parts = line_parts line in
      if length parts \<ge> 2 then
        (case convert_first_two float_of parts of
           Inr row \<Rightarrow> Inr (valid_rows @ [row])
         | Inl ValueError \<Rightarrow> Inr valid_rows
         | Inl e \<Rightarrow> Inl e)
      else Inr valid_rows)"

fun scan_lines ::
  "(string \<Rightarrow> real option) \<Rightarrow> (real \<times> real) list \<Rightarrow> string list \<Rightarrow> failure + (real \<times> real) list" where
  "scan_lines float_of valid_rows [] = Inr valid_rows"
| "scan_lines float_of valid_rows (line # lines) =
     (case scan_line float_of valid_rows line of
        Inl e \<Rightarrow> Inl e
      | Inr valid_rows' \<Rightarrow> scan_lines float_of valid_rows' lines)"

subsection \<open>Fluence and shielding tables (lines 51 to 80)\<close>

text \<open>The rows of the data frames, with the source's column names.\<close>

record flux_row =
  Energy_MeV :: real
  ElectronFlux :: real

record fluence_row = flux_row +
  ElectronFluence :: real

record shielding_row = fluence_row +
  Shielding_g_cm2 :: real
  Al_Thickness_mm :: real

definition seconds_in_mission :: "real \<Rightarrow> real" where
  "seconds_in_mission mission_duration_days = mission_duration_days * 24 * 3600"

text \<open>Lines 51 and 56: the frame \<open>data\<close> with its fluence column.\<close>

definition fluence_table :: "real \<Rightarrow> (real \<times> real) list \<Rightarrow> fluence_row list" where
  "fluence_table mission_duration_days valid_rows =
     map (\<lambda>(energy, flux_electron).
            \<lparr>Energy_MeV = energy, ElectronFlux = flux_electron,
             ElectronFluence = flux_electron * seconds_in_mission mission_duration_days\<rparr>)
         valid_rows"

text \<open>Line 59: the rows kept for the shielding computation.\<close>

definition physics_filter :: "fluence_row list \<Rightarrow> fluence_row list" where
  "physics_filter data = filter (\<lambda>r. Energy_MeV r \<ge> 0.04) data"

text \<open>
  \<^verbatim>\<open>np.log\<close> returns a finite value on a positive argument only; on zero or a negative
  argument numpy gives an infinity or a NaN with a warning, which the model of finite
  values reports as \<open>NonFinite\<close>.
\<close>

definition np_log :: "real \<Rightarrow> failure + real" where
  "np_log x = (if 0 < x then Inr (ln x) else Inl NonFinite)"

text \<open>Lines 66 to 74: the areal density for one energy.\<close>

definition weber_range :: "real \<Rightarrow> failure + real" where
  "weber_range e_mev =
     (if e_mev < 2.5 then
        (if e_mev > 0 then
           (case np_log e_mev of
              Inl fault \<Rightarrow> Inl fault
            | Inr l \<Rightarrow> Inr (0.412 * (e_mev powr (1.265 - 0.0954 * l))))
         else Inr 0.0)
      else Inr (0.530 * e_mev - 0.106))"

text \<open>Lines 63 to 75: the list \<open>shielding_required\<close>, one entry per kept row.\<close>

fun shielding_required :: "real list \<Rightarrow> failure + real list" where
  "shielding_required [] = Inr []"
| "shielding_required (e_mev # rest) =
     (case weber_range e_mev of
        Inl fault \<Rightarrow> Inl fault
      | Inr r \<Rightarrow>
          (case shielding_required rest of
             Inl fault \<Rightarrow> Inl fault
           | Inr rs \<Rightarrow> Inr (r # rs)))"

text \<open>Lines 77 and 80: the two new columns of \<open>target_data\<close>.\<close>

definition with_shielding :: "fluence_row \<Rightarrow> real \<Rightarrow> shielding_row" where
  "with_shielding row r =
     \<lparr>Energy_MeV = Energy_MeV row, ElectronFlux = ElectronFlux row,
      ElectronFluence = ElectronFluence row,
      Shielding_g_cm2 = r, Al_Thickness_mm = (r / 2.70) * 10.0\<rparr>"

definition target_data :: "real \<Rightarrow> (real \<times> real) list \<Rightarrow> failure + shielding_row list" where
  "target_data mission_duration_days valid_rows =
     (let kept = physics_filter (fluence_table mission_duration_days valid_rows) in
      case shielding_required (map Energy_MeV kept) of
        Inl fault \<Rightarrow> Inl fault
      | Inr rs \<Rightarrow> Inr (map (\<lambda>(row, r). with_shielding row r) (zip kept rs)))"

subsection \<open>Hazard selection and safety margin (lines 85 to 97)\<close>

definition hazardous_energies :: "shielding_row list \<Rightarrow> shielding_row list" where
  "hazardous_energies target = filter (\<lambda>r. ElectronFluence r > 1000000000) target"

text \<open>\<^verbatim>\<open>Series.max()\<close> of a column with at least one entry.\<close>

definition series_max :: "real \<Rightarrow> real list \<Rightarrow> real" where
  "series_max v vs = fold max vs v"

text \<open>\<^verbatim>\<open>.values[0]\<close>: the first entry, \<^verbatim>\<open>IndexError\<close> on an empty column.\<close>

definition first_value :: "real list \<Rightarrow> failure + real" where
  "first_value vs = (case vs of [] \<Rightarrow> Inl IndexError | v # _ \<Rightarrow> Inr v)"

record design =
  max_hazard_energy :: real
  design_thickness :: real
  final_thickness :: real

definition select_design :: "shielding_row list \<Rightarrow> failure + design" where
  "select_design target =
     (case hazardous_energies target of
        h # hs \<Rightarrow>
          (let m = series_max (Energy_MeV h) (map Energy_MeV hs) in
           case first_value (map Al_Thickness_mm (filter (\<lambda>r. Energy_MeV r = m) (h # hs))) of
             Inl e \<Rightarrow> Inl e
           | Inr t \<Rightarrow> Inr \<lparr>max_hazard_energy = m, design_thickness = t,
                           final_thickness = t * 1.2\<rparr>)
      | [] \<Rightarrow> Inr \<lparr>max_hazard_energy = 0.5, design_thickness = 2.0,
                   final_thickness = 2.0 * 1.2\<rparr>)"

subsection \<open>The whole function (lines 6 to 113)\<close>

text \<open>
  What a call leaves behind: the lines printed (one constructor per \<^verbatim>\<open>print\<close>, carrying
  the values it formats), the figure saved, and the value returned.
\<close>

datatype message =
    Starting real
  | Reading_lines nat
  | No_data_found
  | Parsed_points nat
  | Could_not_find_file
  | Ensure_same_folder
  | Max_hazardous_energy real
  | Raw_required_thickness real
  | Recommended_thickness real
  | Plot_saved

record figure =
  curve :: "(real \<times> real) list"
  design_line :: real

datatype py_value = PyNone | PyFloat real

record run =
  printed :: "message list"
  saved_figure :: "figure option"
  returned :: py_value

text \<open>Lines 50 to 113, reached with at least one parsed row.\<close>

definition shielding_analysis ::
  "message list \<Rightarrow> (real \<times> real) list \<Rightarrow> real \<Rightarrow> failure + run" where
  "shielding_analysis out valid_rows mission_duration_days =
     (case target_data mission_duration_days valid_rows of
        Inl e \<Rightarrow> Inl e
      | Inr target \<Rightarrow>
          (case select_design target of
             Inl e \<Rightarrow> Inl e
           | Inr d \<Rightarrow>
               Inr \<lparr>printed = out @ [Max_hazardous_energy (max_hazard_energy d),
                                      Raw_required_thickness (design_thickness d),
                                      Recommended_thickness (final_thickness d),
                                      Plot_saved],
                    saved_figure = Some \<lparr>curve = map (\<lambda>r. (Energy_MeV r, Al_Thickness_mm r)) target,
                                          design_line = final_thickness d\<rparr>,
                    returned = PyNone\<rparr>))"

text \<open>
  The file as \<^verbatim>\<open>open\<close> and \<^verbatim>\<open>readlines\<close> see it: \<open>None\<close> when it is not found, or its
  lines. The handler of line 45 covers the whole scan.
\<close>

definition file_not_found :: "message list \<Rightarrow> run" where
  "file_not_found out =
     \<lparr>printed = out @ [Could_not_find_file, Ensure_same_folder],
      saved_figure = None, returned = PyFloat 0.0\<rparr>"

definition calculate_shielding ::
  "(string \<Rightarrow> real option) \<Rightarrow> string list option \<Rightarrow> real \<Rightarrow> failure + run" where
  "calculate_shielding float_of data_file mission_duration_days =
     (let out = [Starting mission_duration_days] in
      case data_file of
        None \<Rightarrow> Inr (file_not_found out)
      | Some lines \<Rightarrow>
          (let out = out @ [Reading_lines (length lines)] in
           case scan_lines float_of [] lines of
             Inl FileNotFoundError \<Rightarrow> Inr (file_not_found out)
           | Inl e \<Rightarrow> Inl e
           | Inr valid_rows \<Rightarrow>
               if valid_rows = [] then
                 Inr \<lparr>printed = out @ [No_data_found], saved_figure = None,
                      returned = PyFloat 0.0\<rparr>
               else
                 shielding_analysis (out @ [Parsed_points (length valid_rows)])
                   valid_rows mission_duration_days))"

text \<open>
  A small parser of decimal literals, used in the worked examples below in the place of
  \<^verbatim>\<open>float\<close>. The two agree on the strings of those examples: a plain decimal literal
  (an optional sign, digits, an optional point and digits) has the same value under
  both, and the header words and fragments of the sample files are refused by both.
  Exponents, underscores, infinities and NaN, which \<^verbatim>\<open>float\<close> accepts, are not covered.
\<close>

definition is_digit :: "char \<Rightarrow> bool" where
  "is_digit c = (48 \<le> (of_char c :: nat) \<and> (of_char c :: nat) \<le> 57)"

definition digits_value :: "string \<Rightarrow> nat" where
  "digits_value ds = foldl (\<lambda>acc c. 10 * acc + ((of_char c :: nat) - 48)) 0 ds"

definition decimal_float :: "string \<Rightarrow> real option" where
  "decimal_float s =
     (let negative = (case s of c # _ \<Rightarrow> c = CHR ''-'' | [] \<Rightarrow> False);
          body = (case s of c # r \<Rightarrow> if c = CHR ''-'' \<or> c = CHR ''+'' then r else s | [] \<Rightarrow> s);
          ip = takeWhile (\<lambda>c. c \<noteq> CHR ''.'') body;
          fp = drop 1 (dropWhile (\<lambda>c. c \<noteq> CHR ''.'') body);
          magnitude = real (digits_value ip) + real (digits_value fp) / 10 ^ length fp
      in if (ip = [] \<and> fp = []) \<or> \<not> list_all is_digit ip \<or> \<not> list_all is_digit fp then None
         else Some (if negative then - magnitude else magnitude))"

subsection \<open>The tokens of a line, as the specification words them\<close>

text \<open>
  The specification splits the line itself on runs of separators and discards the empty
  tokens: what remains are the maximal runs of characters that are no separator.
\<close>

function spec_tokens :: "string \<Rightarrow> string list" where
  "spec_tokens s =
     (case dropWhile is_sep s of
        [] \<Rightarrow> []
      | c # cs \<Rightarrow> takeWhile (\<lambda>c. \<not> is_sep c) (c # cs)
                  # spec_tokens (dropWhile (\<lambda>c. \<not> is_sep c) (c # cs)))"
  by pat_completeness auto
termination
proof (relation "measure length")
  show "wf (measure length)" by simp
next
  fix s :: string and c cs
  assume a: "dropWhile is_sep s = c # cs"
  then have "\<not> is_sep c"
    using hd_dropWhile [of is_sep s] by auto
  then have "dropWhile (\<lambda>c. \<not> is_sep c) (c # cs) = dropWhile (\<lambda>c. \<not> is_sep c) cs"
    by simp
  moreover have "length (dropWhile (\<lambda>c. \<not> is_sep c) cs) \<le> length cs"
    by (rule length_dropWhile_le)
  moreover have "length (c # cs) \<le> length s"
    using length_dropWhile_le [of is_sep s] a by simp
  ultimately show "(dropWhile (\<lambda>c. \<not> is_sep c) (c # cs), s) \<in> measure length"
    by simp
qed

declare spec_tokens.simps [simp del]

section \<open>Trajectory export: \<^verbatim>\<open>spacecraft_trajectory_propagator.py\<close>\<close>

text \<open>
  The propagation and the ephemeris are external: \<open>results_dict\<close> is the ordered
  dictionary from epoch to state (a list of pairs, in insertion order), and the query
  \<^verbatim>\<open>spice.get_body_cartesian_state_at_epoch\<close> for Ganymede seen from Jupiter is a
  parameter \<open>ephemeris\<close> from the epoch to a state. A state is an array of six
  numbers; the field \<open>c0\<close> is the entry \<^verbatim>\<open>[0]\<close>, and so on.
\<close>

record state_vector =
  c0 :: real
  c1 :: real
  c2 :: real
  c3 :: real
  c4 :: real
  c5 :: real

subsection \<open>Downsampling (lines 164 to 172 and 240 to 249)\<close>

text \<open>
  The slice \<^verbatim>\<open>xs[::k]\<close> for a positive step: the first element, then the slice of what
  follows the next \<open>k - 1\<close> elements. The steps of the source are the literals 6 and
  30; a step of zero, which Python refuses, does not occur.
\<close>

fun slice_step :: "nat \<Rightarrow> 'a list \<Rightarrow> 'a list" where
  "slice_step k [] = []"
| "slice_step k (x # xs) = x # slice_step k (drop (k - 1) xs)"

definition all_times :: "(real \<times> state_vector) list \<Rightarrow> real list" where
  "all_times results_dict = map fst results_dict"

definition all_states :: "(real \<times> state_vector) list \<Rightarrow> state_vector list" where
  "all_states results_dict = map snd results_dict"

subsection \<open>Fixed-point formatting\<close>

text \<open>
  \<^verbatim>\<open>format(x, '.nf')\<close> on a finite value: the sign, the integer digits, and for
  \<open>n > 0\<close> a point and \<open>n\<close> digits, the value rounded to \<open>n\<close> decimals with ties to
  even.
\<close>

definition round_half_even :: "real \<Rightarrow> int" where
  "round_half_even y =
     (let f = \<lfloor>y\<rfloor>; d = y - of_int f
      in if d < 1 / 2 then f else if d > 1 / 2 then f + 1 else if even f then f else f + 1)"

definition digit_char :: "nat \<Rightarrow> char" where
  "digit_char d = ''0123456789'' ! d"

fun digits :: "nat \<Rightarrow> string" where
  "digits n = (if n < 10 then [digit_char n] else digits (n div 10) @ [digit_char (n mod 10)])"

declare digits.simps [simp del]

definition format_f :: "nat \<Rightarrow> real \<Rightarrow> string" where
  "format_f n x =
     (let q = nat (round_half_even (\<bar>x\<bar> * 10 ^ n));
          frac = digits (q mod 10 ^ n)
      in (if x < 0 then ''-'' else [])
         @ digits (q div 10 ^ n)
         @ (if n = 0 then [] else ''.'' @ replicate (n - length frac) (CHR ''0'') @ frac))"

text \<open>The digits a formatted number shows after its decimal point.\<close>

definition decimals_of :: "string \<Rightarrow> string" where
  "decimals_of s = drop 1 (dropWhile (\<lambda>c. c \<noteq> CHR ''.'') s)"

subsection \<open>The SPENVIS file (lines 160 to 215)\<close>

definition jd_j2000 :: real where
  "jd_j2000 = 2451545.0"

text \<open>Lines 180 to 194: the Julian date and the position in km of one retained epoch.\<close>

definition spenvis_values ::
  "(real \<Rightarrow> state_vector) \<Rightarrow> real \<Rightarrow> state_vector \<Rightarrow> real \<times> real \<times> real \<times> real" where
  "spenvis_values ephemeris epoch_seconds state_sc_wrt_gan =
     (let current_jd = jd_j2000 + (epoch_seconds / 86400.0);
          state_gan_wrt_jup = ephemeris epoch_seconds;
          x_km = (c0 state_sc_wrt_gan + c0 state_gan_wrt_jup) / 1000.0;
          y_km = (c1 state_sc_wrt_gan + c1 state_gan_wrt_jup) / 1000.0;
          z_km = (c2 state_sc_wrt_gan + c2 state_gan_wrt_jup) / 1000.0
      in (current_jd, x_km, y_km, z_km))"

text \<open>Line 197: the formatted record.\<close>

definition spenvis_format :: "real \<times> real \<times> real \<times> real \<Rightarrow> string" where
  "spenvis_format v =
     (case v of (current_jd, x_km, y_km, z_km) \<Rightarrow>
        format_f 9 current_jd @ '', '' @ format_f 6 x_km @ '', '' @ format_f 6 y_km
        @ '', '' @ format_f 6 z_km)"

definition spenvis_line :: "(real \<Rightarrow> state_vector) \<Rightarrow> real \<Rightarrow> state_vector \<Rightarrow> string" where
  "spenvis_line ephemeris epoch_seconds state_sc_wrt_gan =
     spenvis_format (spenvis_values ephemeris epoch_seconds state_sc_wrt_gan)"

text \<open>The loop of lines 176 to 198 over \<^verbatim>\<open>enumerate(times_downsampled)\<close>; the read
  \<^verbatim>\<open>states_downsampled[i]\<close> raises \<^verbatim>\<open>IndexError\<close> out of range.\<close>

fun spenvis_data_lines ::
  "(real \<Rightarrow> state_vector) \<Rightarrow> state_vector list \<Rightarrow> (nat \<times> real) list \<Rightarrow> failure + string list" where
  "spenvis_data_lines ephemeris states_downsampled [] = Inr []"
| "spenvis_data_lines ephemeris states_downsampled ((i, epoch_seconds) # rest) =
     (if i < length states_downsampled then
        (case spenvis_data_lines ephemeris states_downsampled rest of
           Inl e \<Rightarrow> Inl e
         | Inr data_lines \<Rightarrow>
             Inr (spenvis_line ephemeris epoch_seconds (states_downsampled ! i) # data_lines))
      else Inl IndexError)"

text \<open>Lines 203 to 211: the header, one entry per line written.\<close>

definition spenvis_header :: "string list" where
  "spenvis_header =
     [''******************************************************************'',
      ''* Optimized Ganymede Orbiter Trajectory (60s step)'',
      ''******************************************************************'',
      ''Title: Ganymede Orbiter Analysis'',
      ''Planet: Jupiter'',
      ''Coordinates: PEI'',
      ''Columns: JDCT, X, Y, Z'',
      ''Format: CSV'',
      ''******************************************************************'']"

datatype export_message = Generating | Downsampling_reduced nat nat | Saved

record export =
  written :: "string list"
  reported :: "export_message list"

text \<open>The file is the list of its lines; every \<^verbatim>\<open>write\<close> of the source ends its line.\<close>

definition export_results_for_spenvis ::
  "(real \<Rightarrow> state_vector) \<Rightarrow> (real \<times> state_vector) list \<Rightarrow> failure + export" where
  "export_results_for_spenvis ephemeris results_dict =
     (let times_downsampled = slice_step 6 (all_times results_dict);
          states_downsampled = slice_step 6 (all_states results_dict)
      in case spenvis_data_lines ephemeris states_downsampled (enumerate 0 times_downsampled) of
           Inl e \<Rightarrow> Inl e
         | Inr data_lines \<Rightarrow>
             Inr \<lparr>written = spenvis_header @ [''$$BEGIN''] @ data_lines @ [''$$END''],
                  reported = [Generating,
                              Downsampling_reduced (length (all_times results_dict))
                                (length times_downsampled),
                              Saved]\<rparr>)"

subsection \<open>The OEM file (lines 240 to 299)\<close>

text \<open>
  Of this export the model keeps the numbers: the header and metadata text, the
  calendar timestamps and the formatting of the fields are left out. A record holds
  the epoch and the six values of lines 287 to 294.
\<close>

record oem_record =
  epoch :: real
  x :: real
  y :: real
  z :: real
  vx :: real
  vy :: real
  vz :: real

definition oem_values :: "(real \<Rightarrow> state_vector) \<Rightarrow> real \<Rightarrow> state_vector \<Rightarrow> oem_record" where
  "oem_values ephemeris epoch_seconds state_sc_wrt_gan =
     (let state_gan_wrt_jup = ephemeris epoch_seconds
      in \<lparr>epoch = epoch_seconds,
          x = (c0 state_sc_wrt_gan + c0 state_gan_wrt_jup) / 1000.0,
          y = (c1 state_sc_wrt_gan + c1 state_gan_wrt_jup) / 1000.0,
          z = (c2 state_sc_wrt_gan + c2 state_gan_wrt_jup) / 1000.0,
          vx = (c3 state_sc_wrt_gan + c3 state_gan_wrt_jup) / 1000.0,
          vy = (c4 state_sc_wrt_gan + c4 state_gan_wrt_jup) / 1000.0,
          vz = (c5 state_sc_wrt_gan + c5 state_gan_wrt_jup) / 1000.0\<rparr>)"

fun oem_data_loop ::
  "(real \<Rightarrow> state_vector) \<Rightarrow> state_vector list \<Rightarrow> (nat \<times> real) list \<Rightarrow> failure + oem_record list" where
  "oem_data_loop ephemeris states_downsampled [] = Inr []"
| "oem_data_loop ephemeris states_downsampled ((i, epoch_seconds) # rest) =
     (if i < length states_downsampled then
        (case oem_data_loop ephemeris states_downsampled rest of
           Inl e \<Rightarrow> Inl e
         | Inr records \<Rightarrow>
             Inr (oem_values ephemeris epoch_seconds (states_downsampled ! i) # records))
      else Inl IndexError)"

text \<open>Line 266 reads \<^verbatim>\<open>times_downsampled[0]\<close>, which raises \<^verbatim>\<open>IndexError\<close> on an empty
  dictionary.\<close>

definition export_to_ccsds_oem ::
  "(real \<Rightarrow> state_vector) \<Rightarrow> (real \<times> state_vector) list \<Rightarrow> failure + oem_record list" where
  "export_to_ccsds_oem ephemeris results_dict =
     (let step_size = 30;
          times_downsampled = slice_step step_size (all_times results_dict);
          states_downsampled = slice_step step_size (all_states results_dict)
      in if times_downsampled = [] then Inl IndexError
         else oem_data_loop ephemeris states_downsampled (enumerate 0 times_downsampled))"

subsection \<open>A sample trajectory\<close>

text \<open>
  Seven epochs and a constant ephemeris, for the worked examples below.
\<close>

definition sample_state :: "real \<Rightarrow> state_vector" where
  "sample_state u = \<lparr>c0 = 1000 + u, c1 = 2000, c2 = 3000, c3 = 100, c4 = 200, c5 = 300\<rparr>"

definition sample_dict :: "(real \<times> state_vector) list" where
  "sample_dict =
     [(0, sample_state 0), (10, sample_state 1), (20, sample_state 2), (30, sample_state 3),
      (40, sample_state 4), (50, sample_state 5), (43200, sample_state 500)]"

definition sample_ephemeris :: "real \<Rightarrow> state_vector" where
  "sample_ephemeris t = \<lparr>c0 = 10000, c1 = 20000, c2 = 30000, c3 = 1000, c4 = 2000, c5 = 3000\<rparr>"

section \<open>Properties of the shielding pipeline\<close>

subsection \<open>The tokens of a line\<close>

lemma spec_tokens_Nil: "spec_tokens [] = []"
  by (simp add: spec_tokens.simps)

lemma spec_tokens_skip: "spec_tokens (dropWhile is_sep s) = spec_tokens s"
  by (subst (1 2) spec_tokens.simps) (simp add: dropWhile_idem)

lemma spec_tokens_sep_Cons: "is_sep c \<Longrightarrow> spec_tokens (c # s) = spec_tokens s"
  using spec_tokens_skip [of "c # s"] spec_tokens_skip [of s] by simp

lemma spec_tokens_word:
  "\<not> is_sep c \<Longrightarrow> spec_tokens (c # s) =
     takeWhile (\<lambda>c. \<not> is_sep c) (c # s) # spec_tokens (dropWhile (\<lambda>c. \<not> is_sep c) (c # s))"
  by (subst spec_tokens.simps) simp

lemma re_split_tokens: "filter (\<lambda>p. p \<noteq> []) (re_split s) = spec_tokens s"
proof (induction s rule: re_split.induct)
  case (1 s)
  show ?case
  proof (cases "dropWhile (\<lambda>c. \<not> is_sep c) s")
    case Nil
    then have all: "\<forall>c\<in>set s. \<not> is_sep c" by (simp add: dropWhile_eq_Nil_conv)
    show ?thesis
    proof (cases s)
      case Nil
      then show ?thesis by (simp add: re_split.simps spec_tokens_Nil)
    next
      case (Cons c cs)
      with all have c: "\<not> is_sep c" by simp
      have tw: "takeWhile (\<lambda>c. \<not> is_sep c) s = s" using all by (simp add: takeWhile_eq_all_conv)
      have "re_split s = [s]" by (subst re_split.simps) (simp only: Nil list.case)
      moreover have "spec_tokens s = [s]"
        using spec_tokens_word [OF c, of cs] tw Nil Cons by (simp add: spec_tokens_Nil)
      ultimately show ?thesis using Cons by simp
    qed
  next
    case (Cons x xs)
    then have x: "is_sep x" using hd_dropWhile [of "\<lambda>c. \<not> is_sep c" s] by auto
    have IH: "filter (\<lambda>p. p \<noteq> []) (re_split (dropWhile is_sep (x # xs))) = spec_tokens (x # xs)"
      using 1 [OF Cons] spec_tokens_skip [of "x # xs"] by (simp only: Cons)
    have rs: "re_split s = takeWhile (\<lambda>c. \<not> is_sep c) s # re_split (dropWhile is_sep (x # xs))"
      using Cons by (simp add: re_split.simps [of s])
    show ?thesis
    proof (cases s)
      case Nil
      with Cons show ?thesis by simp
    next
      case c: (Cons c cs)
      show ?thesis
      proof (cases "is_sep c")
        case True
        then have "takeWhile (\<lambda>c. \<not> is_sep c) s = []" "x # xs = s"
          using c Cons by simp_all
        then show ?thesis using rs IH by simp
      next
        case False
        then have "takeWhile (\<lambda>c. \<not> is_sep c) s \<noteq> []" using c by simp
        then show ?thesis using rs IH False c Cons
          by (simp add: spec_tokens_word [of c cs])
      qed
    qed
  qed
qed

lemma spec_tokens_all_sep:
  assumes "\<forall>c\<in>set w. is_sep c"
  shows "spec_tokens w = []"
proof -
  have "dropWhile is_sep w = []" using assms by (simp only: dropWhile_eq_Nil_conv)
  then show ?thesis by (subst spec_tokens.simps) (simp only: list.case)
qed

lemma spec_tokens_trailing:
  "\<forall>c\<in>set w. is_sep c \<Longrightarrow> spec_tokens (u @ w) = spec_tokens u"
proof (induction u rule: spec_tokens.induct)
  case (1 s)
  show ?case
  proof (cases "dropWhile is_sep s")
    case Nil
    then have "\<forall>c\<in>set (s @ w). is_sep c" using 1(2) by (auto simp: dropWhile_eq_Nil_conv)
    then have "spec_tokens (s @ w) = []" by (rule spec_tokens_all_sep)
    moreover have "spec_tokens s = []" by (subst spec_tokens.simps) (simp only: Nil list.case)
    ultimately show ?thesis by simp
  next
    case (Cons c cs)
    then have c: "\<not> is_sep c" using hd_dropWhile [of is_sep s] by auto
    have ex: "\<exists>x\<in>set s. \<not> is_sep x" using Cons by (metis dropWhile_eq_Nil_conv list.distinct(1))
    from ex obtain y where "y \<in> set s" "\<not> is_sep y" by blast
    then have "dropWhile is_sep (s @ w) = dropWhile is_sep s @ w"
      by (rule dropWhile_append1)
    then have app: "dropWhile is_sep (s @ w) = (c # cs) @ w"
      by (simp only: Cons)
    have IH: "spec_tokens (dropWhile (\<lambda>c. \<not> is_sep c) (c # cs) @ w)
               = spec_tokens (dropWhile (\<lambda>c. \<not> is_sep c) (c # cs))"
      using 1(1) [OF Cons 1(2)] .
    show ?thesis
    proof (cases "\<exists>x\<in>set cs. is_sep x")
      case True
      then have "takeWhile (\<lambda>c. \<not> is_sep c) ((c # cs) @ w) = takeWhile (\<lambda>c. \<not> is_sep c) (c # cs)"
        and "dropWhile (\<lambda>c. \<not> is_sep c) ((c # cs) @ w) = dropWhile (\<lambda>c. \<not> is_sep c) (c # cs) @ w"
        by (auto simp: takeWhile_append1 dropWhile_append1)
      then show ?thesis using IH Cons app
        by (simp add: spec_tokens.simps [of s] spec_tokens.simps [of "s @ w"])
    next
      case False
      then have allcs: "\<forall>x\<in>set (c # cs). \<not> is_sep x" using c by simp
      have tw: "takeWhile (\<lambda>c. \<not> is_sep c) ((c # cs) @ w) = c # cs"
        using allcs 1(2) by (cases w) (auto simp: takeWhile_append2 takeWhile_eq_all_conv)
      have dw: "dropWhile (\<lambda>c. \<not> is_sep c) ((c # cs) @ w) = w"
        using allcs 1(2) by (cases w) (auto simp: dropWhile_append2)
      have w: "spec_tokens w = []"
        using 1(2) by (rule spec_tokens_all_sep)
      have "takeWhile (\<lambda>c. \<not> is_sep c) (c # cs) = c # cs" "dropWhile (\<lambda>c. \<not> is_sep c) (c # cs) = []"
        using allcs by (simp_all add: takeWhile_eq_all_conv)
      then show ?thesis using tw dw w Cons app
        by (simp add: spec_tokens.simps [of s] spec_tokens.simps [of "s @ w"] spec_tokens_Nil)
    qed
  qed
qed

lemma spec_tokens_strip: "spec_tokens (strip s) = spec_tokens s"
proof -
  let ?u = "dropWhile isspace s"
  have sp: "\<And>c. isspace c \<Longrightarrow> is_sep c" by (simp add: is_sep_def)
  have "?u = rev (dropWhile isspace (rev ?u)) @ rev (takeWhile isspace (rev ?u))"
    by (metis rev_append rev_rev_ident takeWhile_dropWhile_id)
  moreover have "\<forall>c\<in>set (rev (takeWhile isspace (rev ?u))). is_sep c"
    using sp by (auto dest: set_takeWhileD)
  ultimately have "spec_tokens (rev (dropWhile isspace (rev ?u))) = spec_tokens ?u"
    using spec_tokens_trailing by metis
  moreover have "dropWhile is_sep ?u = dropWhile is_sep s"
    by (induction s) (auto simp: sp)
  then have "spec_tokens ?u = spec_tokens s"
    using spec_tokens_skip by metis
  ultimately show ?thesis by (simp add: strip_def)
qed

lemma line_parts_spec: "line_parts line = spec_tokens line"
  by (simp add: line_parts_def re_split_tokens spec_tokens_strip)


text \<open>
  Claim C3. Every line is split on the runs of commas and whitespace and the empty
  tokens are dropped. One iteration of the scan appends exactly one row, made of the
  values of the first two tokens, when there are at least two tokens and \<^verbatim>\<open>float\<close>
  accepts both; in every other case it leaves the rows as they are. It never fails.
\<close>

theorem scan_line_tokens:
  "scan_line float_of valid_rows line =
     Inr (valid_rows @
          (case spec_tokens line of
             a # b # rest \<Rightarrow>
               (case float_of a of
                  Some energy \<Rightarrow>
                    (case float_of b of Some flux \<Rightarrow> [(energy, flux)] | None \<Rightarrow> [])
                | None \<Rightarrow> [])
           | _ \<Rightarrow> []))"
proof (cases "spec_tokens line")
  case Nil
  then show ?thesis by (simp add: scan_line_def line_parts_spec)
next
  case (Cons a ts)
  show ?thesis
  proof (cases ts)
    case Nil
    with Cons show ?thesis by (simp add: scan_line_def line_parts_spec)
  next
    case (Cons b rest)
    with \<open>spec_tokens line = a # ts\<close> show ?thesis
      by (simp add: scan_line_def line_parts_spec convert_first_two_def float_py_def
               split: option.split)
  qed
qed

theorem scan_line_tokens_witness:
  "scan_line decimal_float [] '' 0.5,,  1000 junk'' = Inr [(0.5, 1000)]
   \<and> scan_line decimal_float [] ''Energy (MeV)'' = Inr []
   \<and> scan_line decimal_float [(1, 2)] ''7'' = Inr [(1, 2)]"
  using scan_line_tokens [of decimal_float "[]" "'' 0.5,,  1000 junk''"]
    scan_line_tokens [of decimal_float "[]" "''Energy (MeV)''"]
    scan_line_tokens [of decimal_float "[(1, 2)]" "''7''"]
  by (simp add: spec_tokens.simps is_sep_def isspace_def decimal_float_def is_digit_def
        digits_value_def)

subsection \<open>The scan and the tables never fail\<close>

lemma scan_line_total: "\<exists>rows. scan_line float_of acc line = Inr rows"
  by (simp add: scan_line_def convert_first_two_def float_py_def Let_def split: option.split)

lemma scan_lines_total: "\<exists>rows. scan_lines float_of acc lines = Inr rows"
proof (induction lines arbitrary: acc)
  case Nil
  show ?case by simp
next
  case (Cons l ls)
  obtain acc' where "scan_line float_of acc l = Inr acc'"
    using scan_line_total [of float_of acc l] by blast
  then show ?case using Cons [of acc'] by simp
qed

lemma weber_range_value:
  "weber_range e =
     Inr (if e < 2.5 then (if e > 0 then 0.412 * (e powr (1.265 - 0.0954 * ln e)) else 0)
          else 0.530 * e - 0.106)"
  by (simp add: weber_range_def np_log_def)

lemma shielding_required_value:
  "\<exists>rs. shielding_required es = Inr rs \<and> length rs = length es
        \<and> (\<forall>i<length es. weber_range (es ! i) = Inr (rs ! i))"
proof (induction es)
  case Nil
  show ?case by simp
next
  case (Cons e es)
  then obtain rs where rs: "shielding_required es = Inr rs" "length rs = length es"
    "\<forall>i<length es. weber_range (es ! i) = Inr (rs ! i)" by blast
  obtain r where r: "weber_range e = Inr r" using weber_range_value by blast
  have "\<forall>i<length (e # es). weber_range ((e # es) ! i) = Inr ((r # rs) ! i)"
    using r rs(3) by (auto simp: nth_Cons split: nat.split)
  then show ?case using r rs(1,2) by simp
qed

lemma target_data_value:
  "\<exists>target. target_data d valid_rows = Inr target
     \<and> map fluence_row.truncate target = physics_filter (fluence_table d valid_rows)
     \<and> (\<forall>r\<in>set target. weber_range (Energy_MeV r) = Inr (Shielding_g_cm2 r)
                          \<and> Al_Thickness_mm r = (Shielding_g_cm2 r / 2.70) * 10.0)"
proof -
  let ?kept = "physics_filter (fluence_table d valid_rows)"
  obtain rs where rs: "shielding_required (map Energy_MeV ?kept) = Inr rs"
    "length rs = length ?kept"
    "\<forall>i<length ?kept. weber_range (map Energy_MeV ?kept ! i) = Inr (rs ! i)"
    using shielding_required_value [of "map Energy_MeV ?kept"] by auto
  let ?target = "map (\<lambda>(row, r). with_shielding row r) (zip ?kept rs)"
  have td: "target_data d valid_rows = Inr ?target"
    using rs(1) by (simp add: target_data_def)
  have "map fluence_row.truncate ?target = ?kept"
    using rs(2)
    by (intro nth_equalityI) (simp_all add: with_shielding_def fluence_row.truncate_def)
  moreover have "\<forall>r\<in>set ?target. weber_range (Energy_MeV r) = Inr (Shielding_g_cm2 r)
                          \<and> Al_Thickness_mm r = (Shielding_g_cm2 r / 2.70) * 10.0"
  proof
    fix r assume "r \<in> set ?target"
    then obtain i where i: "i < length ?target" "r = ?target ! i"
      by (metis in_set_conv_nth)
    then have "i < length ?kept" using rs(2) by simp
    then show "weber_range (Energy_MeV r) = Inr (Shielding_g_cm2 r)
                          \<and> Al_Thickness_mm r = (Shielding_g_cm2 r / 2.70) * 10.0"
      using i rs(2,3) by (simp add: with_shielding_def)
  qed
  ultimately show ?thesis using td by blast
qed


subsection \<open>Areal density and thickness\<close>

text \<open>
  Claim C2. The areal density is piecewise with the boundary at 2.5 MeV: below it,
  \<open>0.412 * E powr (1.265 - 0.0954 * ln E)\<close> for a positive energy and \<open>0\<close> at energy
  zero; from 2.5 on, \<open>0.530 * E - 0.106\<close>. The logarithm is only taken of a positive
  energy, so no energy makes the computation fail. Every row of \<open>target_data\<close> carries
  this areal density for its energy, and its thickness is the areal density divided by
  2.70 and multiplied by 10.
\<close>

theorem weber_range_piecewise:
  "(0 < E \<and> E < 2.5 \<longrightarrow> weber_range E = Inr (0.412 * E powr (1.265 - 0.0954 * ln E)))
   \<and> (E = 0 \<longrightarrow> weber_range E = Inr 0)
   \<and> (2.5 \<le> E \<longrightarrow> weber_range E = Inr (0.530 * E - 0.106))
   \<and> (\<exists>r. weber_range E = Inr r)
   \<and> (\<exists>target. target_data d valid_rows = Inr target
         \<and> (\<forall>row\<in>set target. weber_range (Energy_MeV row) = Inr (Shielding_g_cm2 row)
                \<and> Al_Thickness_mm row = (Shielding_g_cm2 row / 2.70) * 10.0))"
proof (intro conjI)
  show "0 < E \<and> E < 2.5 \<longrightarrow> weber_range E = Inr (0.412 * E powr (1.265 - 0.0954 * ln E))"
    by (simp add: weber_range_def np_log_def)
  show "E = 0 \<longrightarrow> weber_range E = Inr 0"
    by (simp add: weber_range_def)
  show "2.5 \<le> E \<longrightarrow> weber_range E = Inr (0.530 * E - 0.106)"
    by (simp add: weber_range_def)
  show "\<exists>r. weber_range E = Inr r"
    by (simp add: weber_range_value)
  show "\<exists>target. target_data d valid_rows = Inr target
         \<and> (\<forall>row\<in>set target. weber_range (Energy_MeV row) = Inr (Shielding_g_cm2 row)
                \<and> Al_Thickness_mm row = (Shielding_g_cm2 row / 2.70) * 10.0)"
    using target_data_value [of d valid_rows] by blast
qed

theorem weber_range_piecewise_witness:
  "weber_range 1 = Inr 0.412 \<and> weber_range 0 = Inr 0 \<and> weber_range 3 = Inr 1.484
   \<and> (\<exists>target. target_data 30 [(3, 5)] = Inr target
         \<and> map Shielding_g_cm2 target = [1.484]
         \<and> map Al_Thickness_mm target = [(1.484 / 2.70) * 10.0])"
proof -
  obtain target where t: "target_data 30 [(3, 5)] = Inr target"
    "\<forall>row\<in>set target. weber_range (Energy_MeV row) = Inr (Shielding_g_cm2 row)
        \<and> Al_Thickness_mm row = (Shielding_g_cm2 row / 2.70) * 10.0"
    using weber_range_piecewise [of 3 30 "[(3, 5)]"] by blast
  have e: "map Energy_MeV target = [3]"
    using t(1) target_data_value [of 30 "[(3, 5)]"]
    by (auto simp: physics_filter_def fluence_table_def fluence_row.truncate_def
        dest!: arg_cong [where f = "map Energy_MeV"])
  then obtain row where row: "target = [row]" "Energy_MeV row = 3" by auto
  have "weber_range 3 = Inr 1.484"
    using weber_range_piecewise [of 3 30 "[(3, 5)]"] by simp
  then have "Shielding_g_cm2 row = 1.484" "Al_Thickness_mm row = (1.484 / 2.70) * 10.0"
    using t(2) row by auto
  then show ?thesis
    using weber_range_piecewise [of 1 30 "[]"] weber_range_piecewise [of 0 30 "[]"]
      weber_range_piecewise [of 3 30 "[]"] t(1) row(1)
    by simp
qed

subsection \<open>Fluence and the energy cut\<close>

text \<open>
  Claim C6. The fluence of every row is its flux times the duration in days times
  86400. The rows of \<open>target_data\<close> are, in order, exactly the parsed rows whose energy
  is at least 0.04 (the value 0.04 itself is kept, anything below is dropped), each
  with that fluence.
\<close>

theorem fluence_and_filter:
  "(\<forall>r\<in>set (fluence_table d valid_rows). ElectronFluence r = ElectronFlux r * d * 86400)
   \<and> map (\<lambda>r. (Energy_MeV r, ElectronFlux r)) (fluence_table d valid_rows) = valid_rows
   \<and> (\<exists>target. target_data d valid_rows = Inr target
         \<and> map (\<lambda>r. (Energy_MeV r, ElectronFlux r, ElectronFluence r)) target
             = map (\<lambda>(e, f). (e, f, f * d * 86400)) (filter (\<lambda>(e, f). e \<ge> 0.04) valid_rows))"
proof (intro conjI)
  show "\<forall>r\<in>set (fluence_table d valid_rows). ElectronFluence r = ElectronFlux r * d * 86400"
    by (auto simp: fluence_table_def seconds_in_mission_def)
  show "map (\<lambda>r. (Energy_MeV r, ElectronFlux r)) (fluence_table d valid_rows) = valid_rows"
    by (induction valid_rows) (auto simp: fluence_table_def)
  obtain target where t: "target_data d valid_rows = Inr target"
    "map fluence_row.truncate target = physics_filter (fluence_table d valid_rows)"
    using target_data_value [of d valid_rows] by blast
  have "map (\<lambda>r. (Energy_MeV r, ElectronFlux r, ElectronFluence r)) target
          = map (\<lambda>r. (Energy_MeV r, ElectronFlux r, ElectronFluence r))
              (map fluence_row.truncate target)"
    by (simp add: fluence_row.truncate_def)
  also have "\<dots> = map (\<lambda>(e, f). (e, f, f * d * 86400)) (filter (\<lambda>(e, f). e \<ge> 0.04) valid_rows)"
    unfolding t(2)
    by (induction valid_rows)
       (auto simp: physics_filter_def fluence_table_def seconds_in_mission_def)
  finally show "\<exists>target. target_data d valid_rows = Inr target
         \<and> map (\<lambda>r. (Energy_MeV r, ElectronFlux r, ElectronFluence r)) target
             = map (\<lambda>(e, f). (e, f, f * d * 86400)) (filter (\<lambda>(e, f). e \<ge> 0.04) valid_rows)"
    using t(1) by blast
qed

theorem fluence_and_filter_witness:
  "map ElectronFluence (fluence_table 30 [(0.04, 2), (0.03, 7), (1, 5)])
      = [5184000, 18144000, 12960000]
   \<and> (\<exists>target. target_data 30 [(0.04, 2), (0.03, 7), (1, 5)] = Inr target
         \<and> map (\<lambda>r. (Energy_MeV r, ElectronFlux r, ElectronFluence r)) target
             = [(0.04, 2, 5184000), (1, 5, 12960000)])"
  using fluence_and_filter [of 30 "[(0.04, 2), (0.03, 7), (1, 5)]"]
  by (simp add: fluence_table_def seconds_in_mission_def)


subsection \<open>Hazard selection\<close>

lemma series_max_Max: "series_max v vs = Max (set (v # vs))"
  using Max.set_eq_fold [of v vs] by (simp add: series_max_def)

lemma series_max_in: "series_max v vs \<in> set (v # vs)"
  unfolding series_max_Max by (rule Max_in) simp_all

lemma series_max_ge: "u \<in> set (v # vs) \<Longrightarrow> u \<le> series_max v vs"
  unfolding series_max_Max by (rule Max_ge) simp_all

lemma select_design_hazard:
  assumes hz: "hazardous_energies target = h # hs"
  shows "\<exists>r\<in>set (h # hs). (\<forall>r'\<in>set (h # hs). Energy_MeV r' \<le> Energy_MeV r)
            \<and> select_design target =
                Inr \<lparr>max_hazard_energy = Energy_MeV r, design_thickness = Al_Thickness_mm r,
                     final_thickness = Al_Thickness_mm r * 1.2\<rparr>"
proof -
  let ?m = "series_max (Energy_MeV h) (map Energy_MeV hs)"
  have "?m \<in> Energy_MeV ` set (h # hs)"
    using series_max_in [of "Energy_MeV h" "map Energy_MeV hs"] by simp
  then obtain r0 where r0: "r0 \<in> set (h # hs)" "?m = Energy_MeV r0" by (rule imageE)
  then have "filter (\<lambda>r. Energy_MeV r = ?m) (h # hs) \<noteq> []"
    by (simp only: filter_empty_conv) blast
  then obtain r rs where f: "filter (\<lambda>r. Energy_MeV r = ?m) (h # hs) = r # rs"
    by (cases "filter (\<lambda>r. Energy_MeV r = ?m) (h # hs)") auto
  have "r \<in> set (filter (\<lambda>r. Energy_MeV r = ?m) (h # hs))"
    by (simp only: f list.set_intros)
  then have r: "r \<in> set (h # hs)" "Energy_MeV r = ?m"
    unfolding set_filter by blast+
  have ge: "\<forall>r'\<in>set (h # hs). Energy_MeV r' \<le> Energy_MeV r"
  proof
    fix r' assume "r' \<in> set (h # hs)"
    then have "Energy_MeV r' \<in> set (Energy_MeV h # map Energy_MeV hs)" by auto
    then show "Energy_MeV r' \<le> Energy_MeV r"
      unfolding r(2) by (rule series_max_ge)
  qed
  have "select_design target =
          Inr \<lparr>max_hazard_energy = Energy_MeV r, design_thickness = Al_Thickness_mm r,
               final_thickness = Al_Thickness_mm r * 1.2\<rparr>"
    unfolding select_design_def hz list.case Let_def f r(2) first_value_def list.map
    by simp
  then show ?thesis using r(1) ge by blast
qed

lemma select_design_total: "\<exists>d. select_design target = Inr d"
proof (cases "hazardous_energies target")
  case Nil
  then show ?thesis by (simp add: select_design_def)
next
  case (Cons h hs)
  then show ?thesis using select_design_hazard [OF Cons] by blast
qed

text \<open>
  Claim C1. For every sequence of shielding rows the selection succeeds. When some row
  has a fluence above \<open>10\<^sup>9\<close>, the raw design thickness is the thickness of a row of
  maximum energy among the rows with such a fluence, and that energy is the reported
  hazard energy. When no row has, the raw design thickness is 2.0 and the reported
  hazard energy is 0.5. The final thickness is always the raw design thickness times
  1.2, so 2.4 in the fallback.
\<close>

theorem select_design_max_energy:
  "\<exists>d. select_design target = Inr d
     \<and> final_thickness d = design_thickness d * 1.2
     \<and> (if \<exists>r\<in>set target. ElectronFluence r > 1000000000
         then \<exists>r\<in>set target. ElectronFluence r > 1000000000
                \<and> (\<forall>r'\<in>set target. ElectronFluence r' > 1000000000
                       \<longrightarrow> Energy_MeV r' \<le> Energy_MeV r)
                \<and> max_hazard_energy d = Energy_MeV r
                \<and> design_thickness d = Al_Thickness_mm r
         else max_hazard_energy d = 0.5 \<and> design_thickness d = 2.0
                \<and> final_thickness d = 2.4)"
proof (cases "hazardous_energies target")
  case Nil
  then have "\<not> (\<exists>r\<in>set target. ElectronFluence r > 1000000000)"
    by (simp add: hazardous_energies_def filter_empty_conv)
  then show ?thesis using Nil by (simp add: select_design_def)
next
  case (Cons h hs)
  have mem: "set (h # hs) = {r \<in> set target. ElectronFluence r > 1000000000}"
    using Cons [symmetric] by (simp add: hazardous_energies_def)
  obtain r where r: "r \<in> set (h # hs)" "\<forall>r'\<in>set (h # hs). Energy_MeV r' \<le> Energy_MeV r"
    "select_design target =
       Inr \<lparr>max_hazard_energy = Energy_MeV r, design_thickness = Al_Thickness_mm r,
            final_thickness = Al_Thickness_mm r * 1.2\<rparr>"
    using select_design_hazard [OF Cons] by blast
  have in_t: "r \<in> set target" "ElectronFluence r > 1000000000"
    using r(1) mem by auto
  have top: "\<forall>r'\<in>set target. ElectronFluence r' > 1000000000 \<longrightarrow> Energy_MeV r' \<le> Energy_MeV r"
    using r(2) mem by auto
  have ex: "\<exists>r\<in>set target. ElectronFluence r > 1000000000" using in_t by blast
  show ?thesis
    unfolding r(3) using ex in_t top by (simp only: if_True) auto
qed

theorem select_design_max_energy_witness:
  "select_design
     [\<lparr>Energy_MeV = 1, ElectronFlux = 0, ElectronFluence = 2000000000,
        Shielding_g_cm2 = 0, Al_Thickness_mm = 5\<rparr>,
      \<lparr>Energy_MeV = 3, ElectronFlux = 0, ElectronFluence = 5000000000,
        Shielding_g_cm2 = 0, Al_Thickness_mm = 7\<rparr>,
      \<lparr>Energy_MeV = 10, ElectronFlux = 0, ElectronFluence = 1000000000,
        Shielding_g_cm2 = 0, Al_Thickness_mm = 99\<rparr>]
     = Inr \<lparr>max_hazard_energy = 3, design_thickness = 7, final_thickness = 8.4\<rparr>
   \<and> select_design
     [\<lparr>Energy_MeV = 10, ElectronFlux = 0, ElectronFluence = 1000000000,
        Shielding_g_cm2 = 0, Al_Thickness_mm = 99\<rparr>]
     = Inr \<lparr>max_hazard_energy = 0.5, design_thickness = 2, final_thickness = 2.4\<rparr>"
  using select_design_max_energy [of
     "[\<lparr>Energy_MeV = 1, ElectronFlux = 0, ElectronFluence = 2000000000,
        Shielding_g_cm2 = 0, Al_Thickness_mm = 5\<rparr>,
      \<lparr>Energy_MeV = 3, ElectronFlux = 0, ElectronFluence = 5000000000,
        Shielding_g_cm2 = 0, Al_Thickness_mm = 7\<rparr>,
      \<lparr>Energy_MeV = 10, ElectronFlux = 0, ElectronFluence = 1000000000,
        Shielding_g_cm2 = 0, Al_Thickness_mm = 99\<rparr>]"]
    select_design_max_energy [of
     "[\<lparr>Energy_MeV = 10, ElectronFlux = 0, ElectronFluence = 1000000000,
        Shielding_g_cm2 = 0, Al_Thickness_mm = 99\<rparr>]"]
  by (simp add: select_design_def hazardous_energies_def series_max_def first_value_def)


subsection \<open>The whole run\<close>

lemma target_rows_origin:
  assumes "target_data d valid_rows = Inr target" and "r \<in> set target"
  shows "(Energy_MeV r, ElectronFlux r) \<in> set valid_rows
         \<and> ElectronFluence r = ElectronFlux r * seconds_in_mission d
         \<and> Energy_MeV r \<ge> 0.04"
proof -
  have tr: "map fluence_row.truncate target = physics_filter (fluence_table d valid_rows)"
    using target_data_value [of d valid_rows] assms(1) by auto
  have "fluence_row.truncate r \<in> set (map fluence_row.truncate target)"
    using assms(2) by simp
  then have "fluence_row.truncate r \<in> set (physics_filter (fluence_table d valid_rows))"
    by (simp only: tr)
  then obtain e f where ef: "(e, f) \<in> set valid_rows"
    "fluence_row.truncate r
       = \<lparr>Energy_MeV = e, ElectronFlux = f, ElectronFluence = f * seconds_in_mission d\<rparr>"
    "Energy_MeV (fluence_row.truncate r) \<ge> 0.04"
    by (auto simp: physics_filter_def fluence_table_def)
  have "Energy_MeV (fluence_row.truncate r) = Energy_MeV r"
    "ElectronFlux (fluence_row.truncate r) = ElectronFlux r"
    "ElectronFluence (fluence_row.truncate r) = ElectronFluence r"
    by (simp_all add: fluence_row.truncate_def)
  then show ?thesis using ef by simp
qed

lemma shielding_analysis_value:
  "\<exists>target dsg. target_data d valid_rows = Inr target \<and> select_design target = Inr dsg
     \<and> shielding_analysis out valid_rows d =
         Inr \<lparr>printed = out @ [Max_hazardous_energy (max_hazard_energy dsg),
                                Raw_required_thickness (design_thickness dsg),
                                Recommended_thickness (final_thickness dsg),
                                Plot_saved],
              saved_figure = Some \<lparr>curve = map (\<lambda>r. (Energy_MeV r, Al_Thickness_mm r)) target,
                                    design_line = final_thickness dsg\<rparr>,
              returned = PyNone\<rparr>"
proof -
  obtain target where t: "target_data d valid_rows = Inr target"
    using target_data_value [of d valid_rows] by blast
  obtain dsg where s: "select_design target = Inr dsg"
    using select_design_total [of target] by blast
  show ?thesis using t s by (simp add: shielding_analysis_def)
qed

text \<open>Small files, scanned with the decimal parser, and their tables.\<close>

lemma scan_eval2:
  "scan_lines decimal_float [] [''Energy Flux'', ''# Block 1'', []] = Inr []"
  by (simp add: scan_line_def line_parts_spec spec_tokens.simps is_sep_def isspace_def
        convert_first_two_def float_py_def decimal_float_def is_digit_def digits_value_def)

lemma scan_eval3: "scan_lines decimal_float [] [''1.0 5.0''] = Inr [(1, 5)]"
  by (simp add: scan_line_def line_parts_spec spec_tokens.simps is_sep_def isspace_def
        convert_first_two_def float_py_def decimal_float_def is_digit_def digits_value_def)

lemma target_eval3:
  "target_data 0 [(1, 5)] =
     Inr [\<lparr>Energy_MeV = 1, ElectronFlux = 5, ElectronFluence = 0,
           Shielding_g_cm2 = 0.412, Al_Thickness_mm = (0.412 / 2.70) * 10.0\<rparr>]"
  by (simp add: target_data_def physics_filter_def fluence_table_def seconds_in_mission_def
        weber_range_def np_log_def with_shielding_def)

lemma scan_eval4: "scan_lines decimal_float [] [''Energy Flux'', ''3 1000''] = Inr [(3, 1000)]"
  by (simp add: scan_line_def line_parts_spec spec_tokens.simps is_sep_def isspace_def
        convert_first_two_def float_py_def decimal_float_def is_digit_def digits_value_def)

lemma target_eval4:
  "target_data 30 [(3, 1000)] =
     Inr [\<lparr>Energy_MeV = 3, ElectronFlux = 1000, ElectronFluence = 2592000000,
           Shielding_g_cm2 = 1.484, Al_Thickness_mm = (1.484 / 2.70) * 10.0\<rparr>]"
  by (simp add: target_data_def physics_filter_def fluence_table_def seconds_in_mission_def
        weber_range_def np_log_def with_shielding_def)

lemma design_eval4:
  "select_design
     [\<lparr>Energy_MeV = 3, ElectronFlux = 1000, ElectronFluence = 2592000000,
       Shielding_g_cm2 = 1.484, Al_Thickness_mm = (1.484 / 2.70) * 10.0\<rparr>]
   = Inr \<lparr>max_hazard_energy = 3, design_thickness = (1.484 / 2.70) * 10.0,
          final_thickness = (1.484 / 2.70) * 10.0 * 1.2\<rparr>"
  by (simp add: select_design_def hazardous_energies_def series_max_def first_value_def)

lemma scan_eval5: "scan_lines decimal_float [] [''3 -1000''] = Inr [(3, - 1000)]"
  by (simp add: scan_line_def line_parts_spec spec_tokens.simps is_sep_def isspace_def
        convert_first_two_def float_py_def decimal_float_def is_digit_def digits_value_def)

lemma target_eval5:
  "target_data (- 30) [(3, - 1000)] =
     Inr [\<lparr>Energy_MeV = 3, ElectronFlux = - 1000, ElectronFluence = 2592000000,
           Shielding_g_cm2 = 1.484, Al_Thickness_mm = (1.484 / 2.70) * 10.0\<rparr>]"
  by (simp add: target_data_def physics_filter_def fluence_table_def seconds_in_mission_def
        weber_range_def np_log_def with_shielding_def)

lemma design_eval5:
  "select_design
     [\<lparr>Energy_MeV = 3, ElectronFlux = - 1000, ElectronFluence = 2592000000,
       Shielding_g_cm2 = 1.484, Al_Thickness_mm = (1.484 / 2.70) * 10.0\<rparr>]
   = Inr \<lparr>max_hazard_energy = 3, design_thickness = (1.484 / 2.70) * 10.0,
          final_thickness = (1.484 / 2.70) * 10.0 * 1.2\<rparr>"
  by (simp add: select_design_def hazardous_energies_def series_max_def first_value_def)

text \<open>
  Claim C10. A call never raises. It returns the number \<open>0.0\<close>, and saves no figure,
  exactly when the file is missing or the scan leaves no row. In every other case it
  returns \<^verbatim>\<open>None\<close>: the hazard energy, the raw thickness and the recommended thickness
  that the selection computes from the rows of \<open>target_data\<close> are printed, and that
  recommended thickness is the design line of the saved figure, whose curve is the
  thickness over the energy of those rows. The thickness is not returned.
\<close>

theorem calculate_shielding_returns:
  "\<exists>run. calculate_shielding float_of data_file d = Inr run
     \<and> (if data_file = None
            \<or> (\<exists>lines. data_file = Some lines \<and> scan_lines float_of [] lines = Inr [])
         then returned run = PyFloat 0 \<and> saved_figure run = None
         else returned run = PyNone
              \<and> (\<exists>lines valid_rows target dsg.
                     data_file = Some lines
                     \<and> scan_lines float_of [] lines = Inr valid_rows
                     \<and> target_data d valid_rows = Inr target
                     \<and> select_design target = Inr dsg
                     \<and> printed run =
                         [Starting d, Reading_lines (length lines),
                          Parsed_points (length valid_rows),
                          Max_hazardous_energy (max_hazard_energy dsg),
                          Raw_required_thickness (design_thickness dsg),
                          Recommended_thickness (final_thickness dsg),
                          Plot_saved]
                     \<and> saved_figure run =
                         Some \<lparr>curve = map (\<lambda>r. (Energy_MeV r, Al_Thickness_mm r)) target,
                               design_line = final_thickness dsg\<rparr>))"
proof (cases data_file)
  case None
  then show ?thesis by (simp add: calculate_shielding_def file_not_found_def)
next
  case (Some lines)
  obtain valid_rows where rows: "scan_lines float_of [] lines = Inr valid_rows"
    using scan_lines_total [of float_of "[]" lines] by blast
  show ?thesis
  proof (cases "valid_rows = []")
    case True
    then show ?thesis using Some rows by (simp add: calculate_shielding_def)
  next
    case False
    let ?out = "[Starting d, Reading_lines (length lines), Parsed_points (length valid_rows)]"
    obtain target dsg where t: "target_data d valid_rows = Inr target"
      and s: "select_design target = Inr dsg"
      and a: "shielding_analysis ?out valid_rows d =
         Inr \<lparr>printed = ?out @ [Max_hazardous_energy (max_hazard_energy dsg),
                                Raw_required_thickness (design_thickness dsg),
                                Recommended_thickness (final_thickness dsg),
                                Plot_saved],
              saved_figure = Some \<lparr>curve = map (\<lambda>r. (Energy_MeV r, Al_Thickness_mm r)) target,
                                    design_line = final_thickness dsg\<rparr>,
              returned = PyNone\<rparr>"
      using shielding_analysis_value [of d valid_rows ?out] by blast
    let ?run = "\<lparr>printed = ?out @ [Max_hazardous_energy (max_hazard_energy dsg),
                                Raw_required_thickness (design_thickness dsg),
                                Recommended_thickness (final_thickness dsg),
                                Plot_saved],
              saved_figure = Some \<lparr>curve = map (\<lambda>r. (Energy_MeV r, Al_Thickness_mm r)) target,
                                    design_line = final_thickness dsg\<rparr>,
              returned = PyNone\<rparr>"
    have c: "calculate_shielding float_of data_file d = Inr ?run"
      using Some rows False a by (simp add: calculate_shielding_def)
    have n: "\<not> (data_file = None
            \<or> (\<exists>lines. data_file = Some lines \<and> scan_lines float_of [] lines = Inr []))"
      using Some rows False by auto
    have e: "\<exists>lines valid_rows target dsg.
                     data_file = Some lines
                     \<and> scan_lines float_of [] lines = Inr valid_rows
                     \<and> target_data d valid_rows = Inr target
                     \<and> select_design target = Inr dsg
                     \<and> printed ?run =
                         [Starting d, Reading_lines (length lines),
                          Parsed_points (length valid_rows),
                          Max_hazardous_energy (max_hazard_energy dsg),
                          Raw_required_thickness (design_thickness dsg),
                          Recommended_thickness (final_thickness dsg),
                          Plot_saved]
                     \<and> saved_figure ?run =
                         Some \<lparr>curve = map (\<lambda>r. (Energy_MeV r, Al_Thickness_mm r)) target,
                               design_line = final_thickness dsg\<rparr>"
      using Some rows t s by (intro exI [of _ lines] exI [of _ valid_rows]
          exI [of _ target] exI [of _ dsg]) simp
    show ?thesis
      using c n e by (intro exI [of _ ?run]) (simp only: if_False simp_thms run.simps)
  qed
qed

theorem calculate_shielding_returns_witness:
  "calculate_shielding decimal_float (Some [''Energy Flux'', ''3 1000'']) 30 =
     Inr \<lparr>printed = [Starting 30, Reading_lines 2, Parsed_points 1,
                     Max_hazardous_energy 3,
                     Raw_required_thickness ((1.484 / 2.70) * 10.0),
                     Recommended_thickness ((1.484 / 2.70) * 10.0 * 1.2),
                     Plot_saved],
          saved_figure = Some \<lparr>curve = [(3, (1.484 / 2.70) * 10.0)],
                                design_line = (1.484 / 2.70) * 10.0 * 1.2\<rparr>,
          returned = PyNone\<rparr>
   \<and> (\<exists>run. calculate_shielding decimal_float None 30 = Inr run
          \<and> returned run = PyFloat 0 \<and> saved_figure run = None)
   \<and> (\<exists>run. calculate_shielding decimal_float
                (Some [''Energy Flux'', ''# Block 1'', []]) 30 = Inr run
          \<and> returned run = PyFloat 0 \<and> saved_figure run = None)"
proof -
  obtain run where run: "calculate_shielding decimal_float
        (Some [''Energy Flux'', ''3 1000'']) 30 = Inr run"
    and ok: "returned run = PyNone"
      "\<exists>lines valid_rows target dsg.
          Some [''Energy Flux'', ''3 1000''] = Some lines
          \<and> scan_lines decimal_float [] lines = Inr valid_rows
          \<and> target_data 30 valid_rows = Inr target
          \<and> select_design target = Inr dsg
          \<and> printed run =
              [Starting 30, Reading_lines (length lines),
               Parsed_points (length valid_rows),
               Max_hazardous_energy (max_hazard_energy dsg),
               Raw_required_thickness (design_thickness dsg),
               Recommended_thickness (final_thickness dsg),
               Plot_saved]
          \<and> saved_figure run =
              Some \<lparr>curve = map (\<lambda>r. (Energy_MeV r, Al_Thickness_mm r)) target,
                    design_line = final_thickness dsg\<rparr>"
    using calculate_shielding_returns
            [of decimal_float "Some [''Energy Flux'', ''3 1000'']" 30]
    by (auto simp: scan_eval4 simp del: scan_lines.simps)
  from ok(2) obtain target dsg where
    t: "target_data 30 [(3, 1000)] = Inr target" and s: "select_design target = Inr dsg"
    and p: "printed run =
              [Starting 30, Reading_lines 2, Parsed_points 1,
               Max_hazardous_energy (max_hazard_energy dsg),
               Raw_required_thickness (design_thickness dsg),
               Recommended_thickness (final_thickness dsg),
               Plot_saved]"
    and f: "saved_figure run =
              Some \<lparr>curve = map (\<lambda>r. (Energy_MeV r, Al_Thickness_mm r)) target,
                    design_line = final_thickness dsg\<rparr>"
    by (auto simp: scan_eval4 simp del: scan_lines.simps)
  have tv: "target = [\<lparr>Energy_MeV = 3, ElectronFlux = 1000, ElectronFluence = 2592000000,
           Shielding_g_cm2 = 1.484, Al_Thickness_mm = (1.484 / 2.70) * 10.0\<rparr>]"
    using t by (simp only: target_eval4 sum.inject)
  have dv: "dsg = \<lparr>max_hazard_energy = 3, design_thickness = (1.484 / 2.70) * 10.0,
          final_thickness = (1.484 / 2.70) * 10.0 * 1.2\<rparr>"
    using s unfolding tv by (simp only: design_eval4 sum.inject)
  have "run = \<lparr>printed = [Starting 30, Reading_lines 2, Parsed_points 1,
                     Max_hazardous_energy 3,
                     Raw_required_thickness ((1.484 / 2.70) * 10.0),
                     Recommended_thickness ((1.484 / 2.70) * 10.0 * 1.2),
                     Plot_saved],
          saved_figure = Some \<lparr>curve = [(3, (1.484 / 2.70) * 10.0)],
                                design_line = (1.484 / 2.70) * 10.0 * 1.2\<rparr>,
          returned = PyNone\<rparr>"
    using p f ok(1) unfolding tv dv by (cases run) simp
  then show ?thesis
    using run
      calculate_shielding_returns [of decimal_float None 30]
      calculate_shielding_returns
          [of decimal_float "Some [''Energy Flux'', ''# Block 1'', []]" 30]
    by (simp add: scan_eval2 del: scan_lines.simps)
qed

text \<open>
  Claim C5. The two fatal conditions of the specification are the two early returns of
  the code, told apart by their message. When the file is not found (the
  specification's \<^verbatim>\<open>DataNotFoundError\<close>), the run prints the two lines of the handler
  and returns \<open>0.0\<close>; when the scan of all lines leaves no row (its
  \<^verbatim>\<open>EmptyDatasetError\<close>), it prints the line count and the no-data message and returns
  \<open>0.0\<close>. In both cases the run ends there: no figure is saved and no hazard energy or
  thickness is printed.
\<close>

theorem error_paths_abort:
  "calculate_shielding float_of None d =
     Inr \<lparr>printed = [Starting d, Could_not_find_file, Ensure_same_folder],
          saved_figure = None, returned = PyFloat 0\<rparr>
   \<and> (scan_lines float_of [] lines = Inr [] \<longrightarrow>
        calculate_shielding float_of (Some lines) d =
          Inr \<lparr>printed = [Starting d, Reading_lines (length lines), No_data_found],
               saved_figure = None, returned = PyFloat 0\<rparr>)"
  by (simp add: calculate_shielding_def file_not_found_def)

theorem error_paths_abort_witness:
  "calculate_shielding decimal_float None 30 =
     Inr \<lparr>printed = [Starting 30, Could_not_find_file, Ensure_same_folder],
          saved_figure = None, returned = PyFloat 0\<rparr>
   \<and> scan_lines decimal_float [] [''Energy Flux'', ''# Block 1'', []] = Inr []
   \<and> calculate_shielding decimal_float (Some [''Energy Flux'', ''# Block 1'', []]) 30 =
          Inr \<lparr>printed = [Starting 30, Reading_lines 3, No_data_found],
               saved_figure = None, returned = PyFloat 0\<rparr>"
  using error_paths_abort [of decimal_float 30 "[''Energy Flux'', ''# Block 1'', []]"]
  by (simp add: scan_eval2 del: scan_lines.simps)

text \<open>
  Against claim C4 as stated (a duration of zero or less is rejected with
  \<^verbatim>\<open>InvalidDurationError\<close> before any fluence is computed): with a duration of 0 days
  and a file of one record, the call computes the fluence 0, reports the fallback,
  saves the figure and returns \<^verbatim>\<open>None\<close>. The code has no check of the duration.
\<close>

theorem zero_duration_runs_to_completion:
  "calculate_shielding decimal_float (Some [''1.0 5.0'']) 0 =
     Inr \<lparr>printed = [Starting 0, Reading_lines 1, Parsed_points 1,
                     Max_hazardous_energy 0.5, Raw_required_thickness 2.0,
                     Recommended_thickness 2.4, Plot_saved],
          saved_figure = Some \<lparr>curve = [(1, (0.412 / 2.70) * 10.0)], design_line = 2.4\<rparr>,
          returned = PyNone\<rparr>
   \<and> map ElectronFluence (fluence_table 0 [(1, 5)]) = [0]"
  by (simp add: calculate_shielding_def scan_eval3 shielding_analysis_def target_eval3
        select_design_def hazardous_energies_def fluence_table_def seconds_in_mission_def
        del: scan_lines.simps)

text \<open>
  Claim C4, amended. A mission duration of zero or less is not rejected. On a file
  that is found and gives at least one row, the fluence of every parsed row is its
  flux times the duration times 86400, and the run completes: it prints and draws the
  design that the selection computes from these fluences and returns \<^verbatim>\<open>None\<close>. When
  no flux is negative, every fluence is at most zero, no row is hazardous, and that
  design is the fallback (hazard energy 0.5, raw thickness 2.0, recommended thickness
  2.4).
\<close>

theorem nonpositive_duration_fallback:
  assumes "d \<le> 0"
    and "scan_lines float_of [] lines = Inr valid_rows"
    and "valid_rows \<noteq> []"
  shows "map (\<lambda>r. (Energy_MeV r, ElectronFlux r)) (fluence_table d valid_rows) = valid_rows
     \<and> (\<forall>r\<in>set (fluence_table d valid_rows). ElectronFluence r = ElectronFlux r * d * 86400)
     \<and> (\<exists>target dsg.
           target_data d valid_rows = Inr target
           \<and> select_design target = Inr dsg
           \<and> calculate_shielding float_of (Some lines) d =
               Inr \<lparr>printed = [Starting d, Reading_lines (length lines),
                               Parsed_points (length valid_rows),
                               Max_hazardous_energy (max_hazard_energy dsg),
                               Raw_required_thickness (design_thickness dsg),
                               Recommended_thickness (final_thickness dsg),
                               Plot_saved],
                    saved_figure =
                      Some \<lparr>curve = map (\<lambda>r. (Energy_MeV r, Al_Thickness_mm r)) target,
                            design_line = final_thickness dsg\<rparr>,
                    returned = PyNone\<rparr>
           \<and> ((\<forall>row\<in>set valid_rows. 0 \<le> snd row) \<longrightarrow>
                (\<forall>r\<in>set (fluence_table d valid_rows). ElectronFluence r \<le> 0)
                \<and> dsg = \<lparr>max_hazard_energy = 0.5, design_thickness = 2.0,
                          final_thickness = 2.4\<rparr>))"
proof (intro conjI)
  show "map (\<lambda>r. (Energy_MeV r, ElectronFlux r)) (fluence_table d valid_rows) = valid_rows"
    by (induction valid_rows) (auto simp: fluence_table_def)
  show "\<forall>r\<in>set (fluence_table d valid_rows). ElectronFluence r = ElectronFlux r * d * 86400"
    by (auto simp: fluence_table_def seconds_in_mission_def)
  let ?out = "[Starting d, Reading_lines (length lines), Parsed_points (length valid_rows)]"
  obtain target dsg where t: "target_data d valid_rows = Inr target"
    and s: "select_design target = Inr dsg"
    and a: "shielding_analysis ?out valid_rows d =
         Inr \<lparr>printed = ?out @ [Max_hazardous_energy (max_hazard_energy dsg),
                                Raw_required_thickness (design_thickness dsg),
                                Recommended_thickness (final_thickness dsg),
                                Plot_saved],
              saved_figure = Some \<lparr>curve = map (\<lambda>r. (Energy_MeV r, Al_Thickness_mm r)) target,
                                    design_line = final_thickness dsg\<rparr>,
              returned = PyNone\<rparr>"
    using shielding_analysis_value [of d valid_rows ?out] by blast
  have c: "calculate_shielding float_of (Some lines) d =
               Inr \<lparr>printed = [Starting d, Reading_lines (length lines),
                               Parsed_points (length valid_rows),
                               Max_hazardous_energy (max_hazard_energy dsg),
                               Raw_required_thickness (design_thickness dsg),
                               Recommended_thickness (final_thickness dsg),
                               Plot_saved],
                    saved_figure =
                      Some \<lparr>curve = map (\<lambda>r. (Energy_MeV r, Al_Thickness_mm r)) target,
                            design_line = final_thickness dsg\<rparr>,
                    returned = PyNone\<rparr>"
    using assms(2,3) a by (simp add: calculate_shielding_def)
  have fb: "(\<forall>row\<in>set valid_rows. 0 \<le> snd row) \<longrightarrow>
                (\<forall>r\<in>set (fluence_table d valid_rows). ElectronFluence r \<le> 0)
                \<and> dsg = \<lparr>max_hazard_energy = 0.5, design_thickness = 2.0,
                          final_thickness = 2.4\<rparr>"
  proof
    assume nn: "\<forall>row\<in>set valid_rows. 0 \<le> snd row"
    have nonpos: "f * (d * 86400) \<le> 0" if "0 \<le> f" for f :: real
      using that assms(1) by (simp add: mult_nonneg_nonpos)
    have all: "\<forall>r\<in>set (fluence_table d valid_rows). ElectronFluence r \<le> 0"
    proof
      fix r assume "r \<in> set (fluence_table d valid_rows)"
      then obtain e f where ef: "(e, f) \<in> set valid_rows"
        "ElectronFluence r = f * seconds_in_mission d"
        by (auto simp: fluence_table_def)
      have "0 \<le> f" using ef(1) nn by fastforce
      then show "ElectronFluence r \<le> 0"
        using nonpos [of f] ef(2) by (simp add: seconds_in_mission_def mult.assoc)
    qed
    have "\<forall>r\<in>set target. ElectronFluence r \<le> 0"
    proof
      fix r assume r: "r \<in> set target"
      have o: "(Energy_MeV r, ElectronFlux r) \<in> set valid_rows"
        "ElectronFluence r = ElectronFlux r * seconds_in_mission d"
        using target_rows_origin [OF t r] by simp_all
      have "0 \<le> ElectronFlux r" using o(1) nn by fastforce
      then show "ElectronFluence r \<le> 0"
        using nonpos [of "ElectronFlux r"] o(2)
        by (simp add: seconds_in_mission_def mult.assoc)
    qed
    then have "hazardous_energies target = []"
      by (auto simp: hazardous_energies_def filter_empty_conv)
    then have "select_design target =
      Inr \<lparr>max_hazard_energy = 0.5, design_thickness = 2.0, final_thickness = 2.0 * 1.2\<rparr>"
      by (simp add: select_design_def)
    then have "dsg = \<lparr>max_hazard_energy = 0.5, design_thickness = 2.0, final_thickness = 2.4\<rparr>"
      using s by simp
    then show "(\<forall>r\<in>set (fluence_table d valid_rows). ElectronFluence r \<le> 0)
                \<and> dsg = \<lparr>max_hazard_energy = 0.5, design_thickness = 2.0,
                          final_thickness = 2.4\<rparr>"
      using all by simp
  qed
  show "\<exists>target dsg.
           target_data d valid_rows = Inr target
           \<and> select_design target = Inr dsg
           \<and> calculate_shielding float_of (Some lines) d =
               Inr \<lparr>printed = [Starting d, Reading_lines (length lines),
                               Parsed_points (length valid_rows),
                               Max_hazardous_energy (max_hazard_energy dsg),
                               Raw_required_thickness (design_thickness dsg),
                               Recommended_thickness (final_thickness dsg),
                               Plot_saved],
                    saved_figure =
                      Some \<lparr>curve = map (\<lambda>r. (Energy_MeV r, Al_Thickness_mm r)) target,
                            design_line = final_thickness dsg\<rparr>,
                    returned = PyNone\<rparr>
           \<and> ((\<forall>row\<in>set valid_rows. 0 \<le> snd row) \<longrightarrow>
                (\<forall>r\<in>set (fluence_table d valid_rows). ElectronFluence r \<le> 0)
                \<and> dsg = \<lparr>max_hazard_energy = 0.5, design_thickness = 2.0,
                          final_thickness = 2.4\<rparr>)"
    using t s c fb by blast
qed

theorem nonpositive_duration_fallback_witness:
  "map ElectronFluence (fluence_table (- 2) [(1, 5)]) = [- 864000]
   \<and> calculate_shielding decimal_float (Some [''1.0 5.0'']) (- 2) =
       Inr \<lparr>printed = [Starting (- 2), Reading_lines 1, Parsed_points 1,
                       Max_hazardous_energy 0.5, Raw_required_thickness 2.0,
                       Recommended_thickness 2.4, Plot_saved],
            saved_figure = Some \<lparr>curve = [(1, (0.412 / 2.70) * 10.0)], design_line = 2.4\<rparr>,
            returned = PyNone\<rparr>
   \<and> map ElectronFluence (fluence_table (- 30) [(3, - 1000)]) = [2592000000]
   \<and> calculate_shielding decimal_float (Some [''3 -1000'']) (- 30) =
       Inr \<lparr>printed = [Starting (- 30), Reading_lines 1, Parsed_points 1,
                       Max_hazardous_energy 3,
                       Raw_required_thickness ((1.484 / 2.70) * 10.0),
                       Recommended_thickness ((1.484 / 2.70) * 10.0 * 1.2), Plot_saved],
            saved_figure = Some \<lparr>curve = [(3, (1.484 / 2.70) * 10.0)],
                                  design_line = (1.484 / 2.70) * 10.0 * 1.2\<rparr>,
            returned = PyNone\<rparr>"
proof -
  have h: "(- 2 :: real) \<le> 0" "[(1, 5)] \<noteq> ([] :: (real \<times> real) list)"
    "\<forall>row\<in>set [(1 :: real, 5 :: real)]. 0 \<le> snd row"
    "(- 30 :: real) \<le> 0" "[(3, - 1000)] \<noteq> ([] :: (real \<times> real) list)"
    by simp_all
  note a = nonpositive_duration_fallback [OF h(1) scan_eval3 h(2)]
  note b = nonpositive_duration_fallback [OF h(4) scan_eval5 h(5)]
  obtain target dsg where t: "target_data (- 2) [(1, 5)] = Inr target"
    and c: "calculate_shielding decimal_float (Some [''1.0 5.0'']) (- 2) =
               Inr \<lparr>printed = [Starting (- 2), Reading_lines (length [''1.0 5.0'']),
                               Parsed_points (length [(1 :: real, 5 :: real)]),
                               Max_hazardous_energy (max_hazard_energy dsg),
                               Raw_required_thickness (design_thickness dsg),
                               Recommended_thickness (final_thickness dsg),
                               Plot_saved],
                    saved_figure =
                      Some \<lparr>curve = map (\<lambda>r. (Energy_MeV r, Al_Thickness_mm r)) target,
                            design_line = final_thickness dsg\<rparr>,
                    returned = PyNone\<rparr>"
    and d: "dsg = \<lparr>max_hazard_energy = 0.5, design_thickness = 2.0, final_thickness = 2.4\<rparr>"
    using a h(3) by blast
  have tv: "target = [\<lparr>Energy_MeV = 1, ElectronFlux = 5, ElectronFluence = - 864000,
           Shielding_g_cm2 = 0.412, Al_Thickness_mm = (0.412 / 2.70) * 10.0\<rparr>]"
    using t
    by (simp add: target_data_def physics_filter_def fluence_table_def seconds_in_mission_def
          weber_range_def np_log_def with_shielding_def)
  have first: "calculate_shielding decimal_float (Some [''1.0 5.0'']) (- 2) =
       Inr \<lparr>printed = [Starting (- 2), Reading_lines 1, Parsed_points 1,
                       Max_hazardous_energy 0.5, Raw_required_thickness 2.0,
                       Recommended_thickness 2.4, Plot_saved],
            saved_figure = Some \<lparr>curve = [(1, (0.412 / 2.70) * 10.0)], design_line = 2.4\<rparr>,
            returned = PyNone\<rparr>"
    using c unfolding tv d by simp
  obtain target' dsg' where t': "target_data (- 30) [(3, - 1000)] = Inr target'"
    and s': "select_design target' = Inr dsg'"
    and c': "calculate_shielding decimal_float (Some [''3 -1000'']) (- 30) =
               Inr \<lparr>printed = [Starting (- 30), Reading_lines (length [''3 -1000'']),
                               Parsed_points (length [(3 :: real, - 1000 :: real)]),
                               Max_hazardous_energy (max_hazard_energy dsg'),
                               Raw_required_thickness (design_thickness dsg'),
                               Recommended_thickness (final_thickness dsg'),
                               Plot_saved],
                    saved_figure =
                      Some \<lparr>curve = map (\<lambda>r. (Energy_MeV r, Al_Thickness_mm r)) target',
                            design_line = final_thickness dsg'\<rparr>,
                    returned = PyNone\<rparr>"
    using b by blast
  have tv': "target' = [\<lparr>Energy_MeV = 3, ElectronFlux = - 1000, ElectronFluence = 2592000000,
           Shielding_g_cm2 = 1.484, Al_Thickness_mm = (1.484 / 2.70) * 10.0\<rparr>]"
    using t' by (simp only: target_eval5 sum.inject)
  have dv': "dsg' = \<lparr>max_hazard_energy = 3, design_thickness = (1.484 / 2.70) * 10.0,
          final_thickness = (1.484 / 2.70) * 10.0 * 1.2\<rparr>"
    using s' unfolding tv' by (simp only: design_eval5 sum.inject)
  have second: "calculate_shielding decimal_float (Some [''3 -1000'']) (- 30) =
       Inr \<lparr>printed = [Starting (- 30), Reading_lines 1, Parsed_points 1,
                       Max_hazardous_energy 3,
                       Raw_required_thickness ((1.484 / 2.70) * 10.0),
                       Recommended_thickness ((1.484 / 2.70) * 10.0 * 1.2), Plot_saved],
            saved_figure = Some \<lparr>curve = [(3, (1.484 / 2.70) * 10.0)],
                                  design_line = (1.484 / 2.70) * 10.0 * 1.2\<rparr>,
            returned = PyNone\<rparr>"
    using c' unfolding tv' dv' by simp
  have fl: "map ElectronFluence (fluence_table (- 2) [(1, 5)]) = [- 864000]"
    "map ElectronFluence (fluence_table (- 30) [(3, - 1000)]) = [2592000000]"
    by (simp_all add: fluence_table_def seconds_in_mission_def)
  show ?thesis using first second fl by simp
qed


section \<open>Properties of the trajectory export\<close>

subsection \<open>Slices with a step\<close>

lemma slice_step_length:
  "0 < k \<Longrightarrow> length (slice_step k xs) = (length xs + k - 1) div k"
proof (induction k xs rule: slice_step.induct)
  case (1 k)
  then show ?case by simp
next
  case (2 k x xs)
  define n where "n = length xs"
  have IH: "length (slice_step k (drop (k - 1) xs)) = (n - (k - 1) + k - 1) div k"
    using 2 by (simp add: n_def)
  have rhs: "(length (x # xs) + k - 1) div k = Suc (n div k)"
    using 2(2) by (simp add: n_def)
  have "(n - (k - 1) + k - 1) div k = n div k"
  proof (cases "k - 1 \<le> n")
    case True
    then have "n - (k - 1) + k - 1 = n" using 2(2) by arith
    then show ?thesis by (simp only:)
  next
    case False
    then have "n - (k - 1) + k - 1 = k - 1" "n < k" by arith+
    then show ?thesis using 2(2) by simp
  qed
  then show ?case using IH rhs by simp
qed

lemma slice_step_nth:
  "0 < k \<Longrightarrow> i < length (slice_step k xs) \<Longrightarrow> slice_step k xs ! i = xs ! (i * k)"
proof (induction k xs arbitrary: i rule: slice_step.induct)
  case (1 k)
  then show ?case by simp
next
  case (2 k x xs)
  show ?case
  proof (cases i)
    case 0
    then show ?thesis by simp
  next
    case (Suc j)
    then have j: "j < length (slice_step k (drop (k - 1) xs))" using 2(3) by simp
    then have "drop (k - 1) xs \<noteq> []" by auto
    then have le: "k - 1 \<le> length xs" by simp
    have "slice_step k (drop (k - 1) xs) ! j = drop (k - 1) xs ! (j * k)"
      using 2(1) [OF 2(2) j] .
    also have "\<dots> = xs ! (k - 1 + j * k)" using le by simp
    also have "\<dots> = (x # xs) ! (Suc j * k)" using 2(2) by (cases k) (simp_all add: ac_simps)
    finally show ?thesis using Suc by simp
  qed
qed

lemma subseq_drop_self: "subseq (drop n xs) xs"
  by (metis append_take_drop_id subseq_drop_many subseq_order.order_refl)

lemma slice_step_subseq: "subseq (slice_step k xs) xs"
proof (induction k xs rule: slice_step.induct)
  case (1 k)
  then show ?case by simp
next
  case (2 k x xs)
  have "subseq (slice_step k (drop (k - 1) xs)) xs"
    using 2 subseq_drop_self [of "k - 1" xs] by (rule subseq_order.order_trans)
  then show ?case by simp
qed

lemma slice_step_map: "slice_step k (map f xs) = map f (slice_step k xs)"
  by (induction k xs rule: slice_step.induct) (simp_all add: drop_map)

lemma ceiling_nat_div:
  assumes "0 < k"
  shows "\<lceil>real n / real k\<rceil> = int ((n + k - 1) div k)"
proof -
  define c where "c = (n + k - 1) div k"
  have "c * k \<le> n + k - 1" unfolding c_def by (rule div_times_less_eq_dividend)
  then have up: "c * k < n + k" using assms by arith
  have "n + k - 1 < k + c * k"
    unfolding c_def using assms by (rule dividend_less_div_times)
  then have lo: "n \<le> c * k" using assms by arith
  have "real (c * k) < real (n + k)" using up by (simp only: of_nat_less_iff)
  then have "(real c - 1) * real k < real n" by (simp add: algebra_simps)
  then have a: "of_int (int c) - 1 < real n / real k"
    using assms by (simp add: pos_less_divide_eq)
  have "real n \<le> real (c * k)" using lo by (simp only: of_nat_le_iff)
  then have b: "real n / real k \<le> of_int (int c)"
    using assms by (simp add: pos_divide_le_eq)
  show ?thesis unfolding c_def [symmetric] using a b by (rule ceiling_unique)
qed

lemma slice_step_index_map:
  assumes "0 < k"
  shows "slice_step k xs = map (\<lambda>i. xs ! (i * k)) [0..<(length xs + k - 1) div k]"
  using assms
  by (intro nth_equalityI) (simp_all add: slice_step_length slice_step_nth)

lemma slice_step_zip:
  "zip (slice_step k (all_times d)) (slice_step k (all_states d)) = slice_step k d"
  by (simp add: all_times_def all_states_def slice_step_map zip_map_fst_snd)

lemma enumerate_lookup:
  "map (\<lambda>(i, t). g t (map snd ds ! i)) (enumerate 0 (map fst ds)) = map (\<lambda>(t, s). g t s) ds"
  by (intro nth_equalityI) (simp_all add: nth_enumerate_eq case_prod_beta)

lemma spenvis_data_lines_value:
  "n + length ts \<le> length states \<Longrightarrow>
   spenvis_data_lines ephemeris states (enumerate n ts) =
     Inr (map (\<lambda>(i, t). spenvis_line ephemeris t (states ! i)) (enumerate n ts))"
  by (induction ts arbitrary: n) simp_all

lemma oem_data_loop_value:
  "n + length ts \<le> length states \<Longrightarrow>
   oem_data_loop ephemeris states (enumerate n ts) =
     Inr (map (\<lambda>(i, t). oem_values ephemeris t (states ! i)) (enumerate n ts))"
  by (induction ts arbitrary: n) simp_all

lemma export_results_for_spenvis_value:
  "export_results_for_spenvis ephemeris results_dict =
     Inr \<lparr>written = spenvis_header @ [''$$BEGIN'']
                       @ map (\<lambda>(t, sc). spenvis_line ephemeris t sc) (slice_step 6 results_dict)
                       @ [''$$END''],
          reported = [Generating,
                      Downsampling_reduced (length results_dict) ((length results_dict + 5) div 6),
                      Saved]\<rparr>"
proof -
  let ?ds = "slice_step 6 results_dict"
  have t: "slice_step 6 (all_times results_dict) = map fst ?ds"
    and s: "slice_step 6 (all_states results_dict) = map snd ?ds"
    by (simp_all add: all_times_def all_states_def slice_step_map)
  have "spenvis_data_lines ephemeris (map snd ?ds) (enumerate 0 (map fst ?ds)) =
          Inr (map (\<lambda>(i, t). spenvis_line ephemeris t (map snd ?ds ! i))
                 (enumerate 0 (map fst ?ds)))"
    by (rule spenvis_data_lines_value) simp
  also have "\<dots> = Inr (map (\<lambda>(t, sc). spenvis_line ephemeris t sc) ?ds)"
    by (simp only: enumerate_lookup)
  finally show ?thesis
    unfolding export_results_for_spenvis_def Let_def t s
    by (simp add: all_times_def slice_step_length)
qed

lemma export_to_ccsds_oem_value:
  "export_to_ccsds_oem ephemeris results_dict =
     (if results_dict = [] then Inl IndexError
      else Inr (map (\<lambda>(t, sc). oem_values ephemeris t sc) (slice_step 30 results_dict)))"
proof -
  let ?ds = "slice_step 30 results_dict"
  have t: "slice_step 30 (all_times results_dict) = map fst ?ds"
    and s: "slice_step 30 (all_states results_dict) = map snd ?ds"
    by (simp_all add: all_times_def all_states_def slice_step_map)
  have e: "?ds = [] \<longleftrightarrow> results_dict = []" by (cases results_dict) simp_all
  have "oem_data_loop ephemeris (map snd ?ds) (enumerate 0 (map fst ?ds)) =
          Inr (map (\<lambda>(i, t). oem_values ephemeris t (map snd ?ds ! i))
                 (enumerate 0 (map fst ?ds)))"
    by (rule oem_data_loop_value) simp
  also have "\<dots> = Inr (map (\<lambda>(t, sc). oem_values ephemeris t sc) ?ds)"
    by (simp only: enumerate_lookup)
  finally show ?thesis
    unfolding export_to_ccsds_oem_def Let_def t s
    using e by simp
qed


text \<open>
  Claim C7. For a positive stride \<open>k\<close> and a series of length \<open>N\<close>, downsampling returns
  \<open>\<lceil>N / k\<rceil>\<close> elements, namely the elements at the indices \<open>0, k, 2k, \<dots>\<close> in this
  order. The result is a subsequence of the series, so no element is reordered, and it
  repeats no epoch when the series has none twice. The times and the states are cut
  alike, so every retained epoch keeps its own state.
\<close>

theorem downsampling_every_kth:
  assumes "0 < k"
  shows "int (length (slice_step k xs)) = \<lceil>real (length xs) / real k\<rceil>
     \<and> slice_step k xs = map (\<lambda>i. xs ! (i * k)) [0..<(length xs + k - 1) div k]
     \<and> subseq (slice_step k xs) xs
     \<and> (distinct xs \<longrightarrow> distinct (slice_step k xs))
     \<and> zip (slice_step k (all_times results_dict)) (slice_step k (all_states results_dict))
           = slice_step k results_dict"
proof (intro conjI)
  show "int (length (slice_step k xs)) = \<lceil>real (length xs) / real k\<rceil>"
    using assms by (simp add: slice_step_length ceiling_nat_div)
  show "slice_step k xs = map (\<lambda>i. xs ! (i * k)) [0..<(length xs + k - 1) div k]"
    using assms by (rule slice_step_index_map)
  show "subseq (slice_step k xs) xs"
    by (rule slice_step_subseq)
  show "distinct xs \<longrightarrow> distinct (slice_step k xs)"
    using slice_step_subseq [of k xs] subseqs_distinctD [of "slice_step k xs" xs]
    by (simp only: in_set_subseqs) blast
  show "zip (slice_step k (all_times results_dict)) (slice_step k (all_states results_dict))
           = slice_step k results_dict"
    by (rule slice_step_zip)
qed

theorem downsampling_every_kth_witness:
  "slice_step 6 (all_times sample_dict) = [0, 43200]
   \<and> int (length (slice_step 6 (all_times sample_dict))) = \<lceil>(7 :: real) / 6\<rceil>
   \<and> distinct (slice_step 6 (all_times sample_dict))
   \<and> slice_step 6 sample_dict = [(0, sample_state 0), (43200, sample_state 500)]"
proof -
  have k: "(0 :: nat) < 6" by simp
  have d: "distinct (all_times sample_dict)"
    by (simp add: all_times_def sample_dict_def)
  have n: "length (all_times sample_dict) = 7"
    by (simp add: all_times_def sample_dict_def)
  note w = downsampling_every_kth [OF k, of "all_times sample_dict" sample_dict]
  have "distinct (slice_step 6 (all_times sample_dict))" using w d by blast
  moreover have "int (length (slice_step 6 (all_times sample_dict))) = \<lceil>(7 :: real) / 6\<rceil>"
    using w n by simp
  moreover have "slice_step 6 (all_times sample_dict) = [0, 43200]"
    by (simp add: all_times_def sample_dict_def)
  moreover have "slice_step 6 sample_dict = [(0, sample_state 0), (43200, sample_state 500)]"
    by (simp add: sample_dict_def)
  ultimately show ?thesis by simp
qed

subsection \<open>Composition of the two states\<close>

text \<open>
  Claim C8. At every retained epoch the exported position is the elementwise sum of
  the spacecraft's position relative to Ganymede and Ganymede's position relative to
  Jupiter, queried at the same epoch, divided by 1000; the OEM export treats the three
  velocity components in the same way. Positions of 1, 2, 3 km and 10, 20, 30 km
  (1000, 2000, 3000 and 10000, 20000, 30000 in metres) give 11, 22, 33.
\<close>

theorem frame_composition:
  "spenvis_values ephemeris t sc =
     (2451545 + t / 86400,
      (c0 sc + c0 (ephemeris t)) / 1000,
      (c1 sc + c1 (ephemeris t)) / 1000,
      (c2 sc + c2 (ephemeris t)) / 1000)
   \<and> oem_values ephemeris t sc =
       \<lparr>epoch = t,
        x = (c0 sc + c0 (ephemeris t)) / 1000,
        y = (c1 sc + c1 (ephemeris t)) / 1000,
        z = (c2 sc + c2 (ephemeris t)) / 1000,
        vx = (c3 sc + c3 (ephemeris t)) / 1000,
        vy = (c4 sc + c4 (ephemeris t)) / 1000,
        vz = (c5 sc + c5 (ephemeris t)) / 1000\<rparr>
   \<and> (results_dict \<noteq> [] \<longrightarrow>
        export_to_ccsds_oem ephemeris results_dict =
          Inr (map (\<lambda>(t, sc). oem_values ephemeris t sc) (slice_step 30 results_dict)))
   \<and> (\<exists>e. export_results_for_spenvis ephemeris results_dict = Inr e
          \<and> drop 10 (butlast (written e)) =
              map (\<lambda>(t, sc). spenvis_format (spenvis_values ephemeris t sc))
                (slice_step 6 results_dict))"
proof (intro conjI)
  show "spenvis_values ephemeris t sc =
     (2451545 + t / 86400,
      (c0 sc + c0 (ephemeris t)) / 1000,
      (c1 sc + c1 (ephemeris t)) / 1000,
      (c2 sc + c2 (ephemeris t)) / 1000)"
    by (simp add: spenvis_values_def jd_j2000_def Let_def)
  show "oem_values ephemeris t sc =
       \<lparr>epoch = t,
        x = (c0 sc + c0 (ephemeris t)) / 1000,
        y = (c1 sc + c1 (ephemeris t)) / 1000,
        z = (c2 sc + c2 (ephemeris t)) / 1000,
        vx = (c3 sc + c3 (ephemeris t)) / 1000,
        vy = (c4 sc + c4 (ephemeris t)) / 1000,
        vz = (c5 sc + c5 (ephemeris t)) / 1000\<rparr>"
    by (simp add: oem_values_def Let_def)
  show "results_dict \<noteq> [] \<longrightarrow>
        export_to_ccsds_oem ephemeris results_dict =
          Inr (map (\<lambda>(t, sc). oem_values ephemeris t sc) (slice_step 30 results_dict))"
    by (simp add: export_to_ccsds_oem_value)
  have "length spenvis_header = 9" by (simp add: spenvis_header_def)
  then show "\<exists>e. export_results_for_spenvis ephemeris results_dict = Inr e
          \<and> drop 10 (butlast (written e)) =
              map (\<lambda>(t, sc). spenvis_format (spenvis_values ephemeris t sc))
                (slice_step 6 results_dict)"
    by (simp add: export_results_for_spenvis_value butlast_append spenvis_line_def)
qed

theorem frame_composition_witness:
  "spenvis_values sample_ephemeris 0 (sample_state 0) = (2451545, 11, 22, 33)
   \<and> oem_values sample_ephemeris 0 (sample_state 0) =
       \<lparr>epoch = 0, x = 11, y = 22, z = 33, vx = 1.1, vy = 2.2, vz = 3.3\<rparr>
   \<and> sample_dict \<noteq> []
   \<and> export_to_ccsds_oem sample_ephemeris sample_dict =
       Inr [\<lparr>epoch = 0, x = 11, y = 22, z = 33, vx = 1.1, vy = 2.2, vz = 3.3\<rparr>]"
proof -
  note w = frame_composition [of sample_ephemeris 0 "sample_state 0" sample_dict]
  have ne: "sample_dict \<noteq> []" by (simp add: sample_dict_def)
  have s30: "slice_step 30 sample_dict = [(0, sample_state 0)]"
    by (simp add: sample_dict_def)
  have "export_to_ccsds_oem sample_ephemeris sample_dict =
          Inr [oem_values sample_ephemeris 0 (sample_state 0)]"
    using w ne s30 by simp
  then show ?thesis
    using w ne by (simp add: sample_state_def sample_ephemeris_def)
qed


subsection \<open>The SPENVIS file\<close>

lemma replicate_numeral: "replicate (numeral k) v = v # replicate (pred_numeral k) v"
  by (simp add: numeral_eq_Suc)

lemma digit_char_is_digit:
  assumes "d < 10"
  shows "is_digit (digit_char d)"
proof -
  have "d = 0 \<or> d = 1 \<or> d = 2 \<or> d = 3 \<or> d = 4 \<or> d = 5 \<or> d = 6 \<or> d = 7
          \<or> d = 8 \<or> d = 9"
    using assms by arith
  then show ?thesis
    by (elim disjE) (simp_all add: digit_char_def is_digit_def)
qed

lemma digits_all_digit: "list_all is_digit (digits n)"
proof (induction n rule: digits.induct)
  case (1 n)
  show ?case
  proof (cases "n < 10")
    case True
    then show ?thesis by (subst digits.simps) (simp add: digit_char_is_digit)
  next
    case False
    have "n mod 10 < 10" by simp
    then have "is_digit (digit_char (n mod 10))" by (rule digit_char_is_digit)
    then show ?thesis using 1 [OF False] False by (subst digits.simps) simp
  qed
qed

lemma is_digit_not_point: "is_digit c \<Longrightarrow> c \<noteq> CHR ''.''"
  by (auto simp: is_digit_def)

lemma digits_length_le: "n < 10 ^ m \<Longrightarrow> 0 < m \<Longrightarrow> length (digits n) \<le> m"
proof (induction n arbitrary: m rule: digits.induct)
  case (1 n)
  show ?case
  proof (cases "n < 10")
    case True
    then show ?thesis using 1(3) by (subst digits.simps) simp
  next
    case False
    obtain m' where m: "m = Suc m'" using 1(3) by (cases m) auto
    have "m' \<noteq> 0" using False 1(2) m by (cases m') auto
    then have pos: "0 < m'" by simp
    have "n div 10 < 10 ^ m'" using 1(2) m by (simp add: less_mult_imp_div_less mult.commute)
    then have "length (digits (n div 10)) \<le> m'" using 1(1) [OF False _ pos] by simp
    then show ?thesis using False m by (subst digits.simps) simp
  qed
qed

lemma decimals_of_format_f:
  assumes "0 < n"
  shows "length (decimals_of (format_f n v)) = n
         \<and> list_all is_digit (decimals_of (format_f n v))"
proof -
  define q where "q = nat (round_half_even (\<bar>v\<bar> * 10 ^ n))"
  define frac where "frac = digits (q mod 10 ^ n)"
  define front where "front = (if v < 0 then ''-'' else []) @ digits (q div 10 ^ n)"
  define tail where "tail = replicate (n - length frac) (CHR ''0'') @ frac"
  have f: "format_f n v = front @ CHR ''.'' # tail"
    using assms by (simp add: format_f_def Let_def q_def frac_def front_def tail_def)
  have "\<And>c. c \<in> set front \<Longrightarrow> c \<noteq> CHR ''.''"
    using digits_all_digit [of "q div 10 ^ n"] is_digit_not_point
    by (auto simp: front_def list_all_iff)
  then have "dropWhile (\<lambda>c. c \<noteq> CHR ''.'') (front @ CHR ''.'' # tail) = CHR ''.'' # tail"
    by (simp add: dropWhile_append2)
  then have d: "decimals_of (format_f n v) = tail"
    by (simp add: decimals_of_def f)
  have "q mod 10 ^ n < 10 ^ n" by simp
  then have "length frac \<le> n" unfolding frac_def using assms by (rule digits_length_le)
  then have "length tail = n" by (simp add: tail_def)
  moreover have "is_digit (CHR ''0'')" by (simp add: is_digit_def)
  then have "list_all is_digit tail"
    using digits_all_digit [of "q mod 10 ^ n"]
    by (auto simp: tail_def frac_def list_all_iff)
  ultimately show ?thesis using d by simp
qed

lemma format_f_eval:
  assumes "round_half_even (\<bar>v\<bar> * 10 ^ n) = int q" and "0 < n"
  shows "format_f n v =
           (if v < 0 then ''-'' else []) @ digits (q div 10 ^ n) @ ''.''
           @ replicate (n - length (digits (q mod 10 ^ n))) (CHR ''0'') @ digits (q mod 10 ^ n)"
  using assms by (simp add: format_f_def Let_def)

lemma format_jd_0: "format_f 9 2451545 = ''2451545.000000000''"
proof -
  have "round_half_even (\<bar>2451545\<bar> * 10 ^ 9) = int 2451545000000000"
    by (simp add: round_half_even_def Let_def)
  from format_f_eval [OF this] show ?thesis
    by (simp add: digits.simps digit_char_def replicate_numeral)
qed

lemma format_jd_half: "format_f 9 (2451545 + 43200 / 86400) = ''2451545.500000000''"
proof -
  have "round_half_even (\<bar>2451545 + 43200 / 86400\<bar> * 10 ^ 9) = int 2451545500000000"
    by (simp add: round_half_even_def Let_def)
  from format_f_eval [OF this] show ?thesis
    by (simp add: digits.simps digit_char_def replicate_numeral)
qed

lemma format_km_11: "format_f 6 11 = ''11.000000''"
proof -
  have "round_half_even (\<bar>11\<bar> * 10 ^ 6) = int 11000000"
    by (simp add: round_half_even_def Let_def)
  from format_f_eval [OF this] show ?thesis
    by (simp add: digits.simps digit_char_def replicate_numeral)
qed

lemma format_km_11_5: "format_f 6 (23 / 2) = ''11.500000''"
proof -
  have "round_half_even (\<bar>23 / 2\<bar> * 10 ^ 6) = int 11500000"
    by (simp add: round_half_even_def Let_def)
  from format_f_eval [OF this] show ?thesis
    by (simp add: digits.simps digit_char_def replicate_numeral)
qed

lemma format_km_22: "format_f 6 22 = ''22.000000''"
proof -
  have "round_half_even (\<bar>22\<bar> * 10 ^ 6) = int 22000000"
    by (simp add: round_half_even_def Let_def)
  from format_f_eval [OF this] show ?thesis
    by (simp add: digits.simps digit_char_def replicate_numeral)
qed

lemma format_km_33: "format_f 6 33 = ''33.000000''"
proof -
  have "round_half_even (\<bar>33\<bar> * 10 ^ 6) = int 33000000"
    by (simp add: round_half_even_def Let_def)
  from format_f_eval [OF this] show ?thesis
    by (simp add: digits.simps digit_char_def replicate_numeral)
qed

lemma sample_line_0:
  "spenvis_line sample_ephemeris 0 (sample_state 0)
     = ''2451545.000000000, 11.000000, 22.000000, 33.000000''"
proof -
  have "spenvis_values sample_ephemeris 0 (sample_state 0) = (2451545, 11, 22, 33)"
    by (simp add: spenvis_values_def jd_j2000_def sample_ephemeris_def sample_state_def Let_def)
  then show ?thesis
    by (simp add: spenvis_line_def spenvis_format_def format_jd_0 format_km_11 format_km_22
          format_km_33)
qed

lemma sample_line_6:
  "spenvis_line sample_ephemeris 43200 (sample_state 500)
     = ''2451545.500000000, 11.500000, 22.000000, 33.000000''"
proof -
  have "spenvis_values sample_ephemeris 43200 (sample_state 500)
          = (2451545 + 43200 / 86400, 23 / 2, 22, 33)"
    by (simp add: spenvis_values_def jd_j2000_def sample_ephemeris_def sample_state_def Let_def)
  then show ?thesis
    by (simp only: spenvis_line_def spenvis_format_def format_jd_half format_km_11_5
          format_km_22 format_km_33 prod.case) simp
qed

text \<open>
  Claim C9. The export never fails. The file is the header, with its five field lines
  Title, Planet, Coordinates, Columns and Format, then the line \<^verbatim>\<open>$$BEGIN\<close>, then one
  record for every retained epoch (every sixth entry of the dictionary, in order), then
  the line \<^verbatim>\<open>$$END\<close>. A record is the Julian date \<open>2451545.0 + epoch_seconds / 86400.0\<close>
  with 9 decimals, then X, Y and Z in km with 6 decimals each, separated by a comma and
  a space.
\<close>

theorem spenvis_file_layout:
  "\<exists>e. export_results_for_spenvis ephemeris results_dict = Inr e
      \<and> written e =
          spenvis_header @ [''$$BEGIN'']
          @ map (\<lambda>(t, sc). spenvis_line ephemeris t sc) (slice_step 6 results_dict)
          @ [''$$END'']
      \<and> length (written e) = 9 + 1 + (length results_dict + 5) div 6 + 1
      \<and> take 5 (drop 3 spenvis_header) =
          [''Title: Ganymede Orbiter Analysis'', ''Planet: Jupiter'', ''Coordinates: PEI'',
           ''Columns: JDCT, X, Y, Z'', ''Format: CSV'']
      \<and> spenvis_line ephemeris t sc =
          format_f 9 (2451545.0 + t / 86400.0)
          @ '', '' @ format_f 6 ((c0 sc + c0 (ephemeris t)) / 1000)
          @ '', '' @ format_f 6 ((c1 sc + c1 (ephemeris t)) / 1000)
          @ '', '' @ format_f 6 ((c2 sc + c2 (ephemeris t)) / 1000)
      \<and> length (decimals_of (format_f 9 v)) = 9 \<and> list_all is_digit (decimals_of (format_f 9 v))
      \<and> length (decimals_of (format_f 6 v)) = 6 \<and> list_all is_digit (decimals_of (format_f 6 v))"
proof -
  let ?e = "\<lparr>written = spenvis_header @ [''$$BEGIN'']
                       @ map (\<lambda>(t, sc). spenvis_line ephemeris t sc) (slice_step 6 results_dict)
                       @ [''$$END''],
          reported = [Generating,
                      Downsampling_reduced (length results_dict) ((length results_dict + 5) div 6),
                      Saved]\<rparr>"
  have e: "export_results_for_spenvis ephemeris results_dict = Inr ?e"
    by (rule export_results_for_spenvis_value)
  have len: "length (written ?e) = 9 + 1 + (length results_dict + 5) div 6 + 1"
    by (simp add: spenvis_header_def slice_step_length)
  have hdr: "take 5 (drop 3 spenvis_header) =
          [''Title: Ganymede Orbiter Analysis'', ''Planet: Jupiter'', ''Coordinates: PEI'',
           ''Columns: JDCT, X, Y, Z'', ''Format: CSV'']"
    by (simp add: spenvis_header_def)
  have line: "spenvis_line ephemeris t sc =
          format_f 9 (2451545.0 + t / 86400.0)
          @ '', '' @ format_f 6 ((c0 sc + c0 (ephemeris t)) / 1000)
          @ '', '' @ format_f 6 ((c1 sc + c1 (ephemeris t)) / 1000)
          @ '', '' @ format_f 6 ((c2 sc + c2 (ephemeris t)) / 1000)"
    by (simp add: spenvis_line_def spenvis_format_def spenvis_values_def jd_j2000_def Let_def)
  have d9: "length (decimals_of (format_f 9 v)) = 9 \<and> list_all is_digit (decimals_of (format_f 9 v))"
    by (rule decimals_of_format_f) simp
  have d6: "length (decimals_of (format_f 6 v)) = 6 \<and> list_all is_digit (decimals_of (format_f 6 v))"
    by (rule decimals_of_format_f) simp
  show ?thesis
    using e len hdr line d9 d6 by (intro exI [of _ ?e]) simp
qed

theorem spenvis_file_layout_witness:
  "\<exists>e. export_results_for_spenvis sample_ephemeris sample_dict = Inr e
      \<and> written e =
          spenvis_header
          @ [''$$BEGIN'',
             ''2451545.000000000, 11.000000, 22.000000, 33.000000'',
             ''2451545.500000000, 11.500000, 22.000000, 33.000000'',
             ''$$END'']
      \<and> length (written e) = 13
      \<and> decimals_of (format_f 9 2451545) = ''000000000''"
proof -
  obtain e where e: "export_results_for_spenvis sample_ephemeris sample_dict = Inr e"
    "written e =
          spenvis_header @ [''$$BEGIN'']
          @ map (\<lambda>(t, sc). spenvis_line sample_ephemeris t sc) (slice_step 6 sample_dict)
          @ [''$$END'']"
    "length (written e) = 9 + 1 + (length sample_dict + 5) div 6 + 1"
    using spenvis_file_layout [of sample_ephemeris sample_dict 0 "sample_state 0" 0] by blast
  have s: "slice_step 6 sample_dict = [(0, sample_state 0), (43200, sample_state 500)]"
    by (simp add: sample_dict_def)
  have n: "length sample_dict = 7" by (simp add: sample_dict_def)
  have w: "written e =
          spenvis_header
          @ [''$$BEGIN'',
             ''2451545.000000000, 11.000000, 22.000000, 33.000000'',
             ''2451545.500000000, 11.500000, 22.000000, 33.000000'',
             ''$$END'']"
    unfolding e(2) s by (simp add: sample_line_0 sample_line_6)
  have l: "length (written e) = 13" using e(3) n by simp
  have "decimals_of (format_f 9 2451545) = ''000000000''"
    by (simp add: format_jd_0 decimals_of_def)
  then show ?thesis using e(1) w l by blast
qed


end
